theory Spec2Isabelle
  imports Main
begin

section \<open>Data model\<close>

text \<open>
  The enumerations come from the models package the provider base class imports
  (\<^verbatim>\<open>music_assistant_models.enums\<close>). \<open>MediaType\<close> lists the seven members
  \<^verbatim>\<open>sync_library\<close> dispatches on and two of the members it does not handle;
  \<open>ProviderFeature\<close> lists the members \<^verbatim>\<open>music_provider.py\<close> tests.
\<close>

datatype MediaType =
  ARTIST | ALBUM | TRACK | PLAYLIST | RADIO | AUDIOBOOK | PODCAST | PODCAST_EPISODE | UNKNOWN

datatype ProviderFeature =
    SEARCH | BROWSE | RECOMMENDATIONS
  | LIBRARY_ARTISTS | LIBRARY_ALBUMS | LIBRARY_TRACKS | LIBRARY_PLAYLISTS
  | LIBRARY_RADIOS | LIBRARY_AUDIOBOOKS | LIBRARY_PODCASTS
  | LIBRARY_ARTISTS_EDIT | LIBRARY_ALBUMS_EDIT | LIBRARY_TRACKS_EDIT | LIBRARY_PLAYLISTS_EDIT
  | LIBRARY_RADIOS_EDIT | LIBRARY_AUDIOBOOKS_EDIT | LIBRARY_PODCASTS_EDIT
  | ARTIST_ALBUMS | ARTIST_TOPTRACKS | SIMILAR_TRACKS | PLAYLIST_TRACKS_EDIT | PLAYLIST_CREATE

text \<open>
  The exceptions of \<^verbatim>\<open>music_assistant_models.errors\<close> that the sync code raises or
  catches, each with its message. \<open>MediaNotFoundError\<close> and
  \<open>UnsupportedFeaturedException\<close> are subclasses of \<open>MusicAssistantError\<close>, so
  \<^verbatim>\<open>except MusicAssistantError\<close> catches all three; \<open>OtherException\<close> stands for
  any exception outside that hierarchy, which no handler of the sync code catches.
\<close>

datatype error =
    MusicAssistantError string
  | MediaNotFoundError string
  | UnsupportedFeaturedException string
  | OtherException string

fun is_MusicAssistantError :: "error \<Rightarrow> bool" where
  "is_MusicAssistantError (OtherException _) = False"
| "is_MusicAssistantError _ = True"

fun is_MediaNotFoundError :: "error \<Rightarrow> bool" where
  "is_MediaNotFoundError (MediaNotFoundError _) = True"
| "is_MediaNotFoundError _ = False"

text \<open>
  A \<^verbatim>\<open>ProviderMapping\<close>: the fields the sync code reads and writes. The mapping's own
  \<^verbatim>\<open>item_id\<close> and \<^verbatim>\<open>available\<close> are named \<open>mapping_item_id\<close> and
  \<open>mapping_available\<close> here, since the media item has fields of the same names.
  The sync code assigns Booleans to \<^verbatim>\<open>in_library\<close> and tests it as one.
\<close>

record ProviderMapping =
  mapping_item_id :: string
  provider_domain :: string
  provider_instance :: string
  in_library :: bool
  mapping_available :: bool

text \<open>
  A media item (\<^verbatim>\<open>Artist\<close>, \<^verbatim>\<open>Album\<close>, \<^verbatim>\<open>Track\<close>, ...), with the fields
  the sync code uses. The type parameter is the type of \<^verbatim>\<open>item_id\<close>: a provider item
  carries the provider's own id (a string), a library item carries the database id, which
  the code reads back with \<^verbatim>\<open>int(library_item.item_id)\<close>.
  \<^verbatim>\<open>provider_mappings\<close> is a Python set; the list fixes the order in which the code's
  \<^verbatim>\<open>for\<close> loops and generator expressions visit it.
\<close>

record 'id MediaItem =
  item_id :: 'id
  provider :: string
  name :: string
  uri :: string
  favorite :: bool
  available :: bool
  cache_checksum :: "string option"
  resume_position_ms :: "int option"
  fully_played :: "bool option"
  provider_mappings :: "ProviderMapping list"

section \<open>Calls on the collaborators\<close>

text \<open>
  The sync code talks to three collaborators: the library store (the media controllers
  behind \<^verbatim>\<open>self.mass.music\<close>), the provider's own catalog API and the snapshot
  cache (\<^verbatim>\<open>self.mass.cache\<close>). Every call the code makes is an event. The first
  argument of a store call is the media type whose controller is addressed:
  \<^verbatim>\<open>self.mass.music.artists\<close> is \<open>ARTIST\<close>, \<^verbatim>\<open>self.mass.music.tracks\<close> is
  \<open>TRACK\<close>, and \<^verbatim>\<open>self.mass.music.get_controller(media_type)\<close> is \<open>media_type\<close>.
\<close>

datatype event =
    GetLibraryItemByProvMappings MediaType "ProviderMapping list"
  | AddItemToLibrary MediaType "string MediaItem"
  | UpdateItemInLibrary MediaType int "string MediaItem"
  | SetFavorite MediaType int bool
  | SetProviderMappings MediaType int "ProviderMapping list"
  | RemoveItemFromLibrary MediaType int bool
  | GetLibraryItem MediaType int
  | PodcastEpisodes int string
  | GetLibraryItems MediaType
  | GetAlbumTracks string
  | GetPlaylistTracks string nat
  | CacheGet MediaType string
  | CacheSet MediaType "int list" string


section \<open>The provider\<close>

text \<open>
  What the sync code reads of a \<^verbatim>\<open>MusicProvider\<close> instance and of its surroundings:
  \<^item> its identity and capabilities: \<^verbatim>\<open>self.domain\<close>, \<^verbatim>\<open>self.instance_id\<close>,
    \<^verbatim>\<open>self.is_streaming_provider\<close> (a property a subclass overrides),
    \<^verbatim>\<open>self.manifest.multi_instance\<close> and \<^verbatim>\<open>self.supported_features\<close>;
  \<^item> its configuration: the value of \<^verbatim>\<open>CONF_ENTRY_LIBRARY_IMPORT_ALBUM_TRACKS\<close> as the
    code converts it with \<^verbatim>\<open>bool\<close>, and the list of
    \<^verbatim>\<open>CONF_ENTRY_LIBRARY_IMPORT_PLAYLIST_TRACKS\<close>;
  \<^item> what its catalog API answers. The generators \<^verbatim>\<open>get_library_artists\<close>, ...,
    \<^verbatim>\<open>get_library_podcasts\<close> are abstract in the base class; \<open>library_gen\<close> gives,
    for each media type, the finite sequence of items the generator yields and the
    exception it ends with, if any. \<open>album_tracks\<close> is the answer of
    \<^verbatim>\<open>get_album_tracks\<close>. \<open>playlist_pages\<close> lists the pages
    \<^verbatim>\<open>get_playlist_tracks\<close> answers for page 0, 1, ...; every later page is empty;
  \<^item> \<open>faults\<close>: which calls on the store and on the catalog API raise, and what. The
    store and the API clients are not part of the sync code, so their failures are an
    input of the model.
\<close>

record MusicProvider =
  domain :: string
  instance_id :: string
  is_streaming_provider :: bool
  multi_instance :: bool
  supported_features :: "ProviderFeature set"
  conf_sync_album_tracks :: bool
  conf_sync_playlist_tracks :: "string list"
  library_gen :: "MediaType \<Rightarrow> string MediaItem list \<times> error option"
  album_tracks :: "string \<Rightarrow> string MediaItem list"
  playlist_pages :: "string \<Rightarrow> string MediaItem list list"
  faults :: "event \<Rightarrow> error option"

definition lookup_key :: "MusicProvider \<Rightarrow> string" where
  "lookup_key self =
     (if is_streaming_provider self \<or> \<not> multi_instance self then domain self
      else instance_id self)"

text \<open>
  The lookup key as the specification words it: the domain for a streaming provider or
  for one that is multi-instance-capable and not differentiated, the instance id
  otherwise. The source has no attribute named "differentiated"; it is a parameter here.
\<close>

definition lookup_key_spec :: "bool \<Rightarrow> MusicProvider \<Rightarrow> string" where
  "lookup_key_spec differentiated self =
     (if is_streaming_provider self \<or> (multi_instance self \<and> \<not> differentiated)
      then domain self else instance_id self)"

fun library_supported :: "MusicProvider \<Rightarrow> MediaType \<Rightarrow> bool" where
  "library_supported self ARTIST = (LIBRARY_ARTISTS \<in> supported_features self)"
| "library_supported self ALBUM = (LIBRARY_ALBUMS \<in> supported_features self)"
| "library_supported self TRACK = (LIBRARY_TRACKS \<in> supported_features self)"
| "library_supported self PLAYLIST = (LIBRARY_PLAYLISTS \<in> supported_features self)"
| "library_supported self RADIO = (LIBRARY_RADIOS \<in> supported_features self)"
| "library_supported self AUDIOBOOK = (LIBRARY_AUDIOBOOKS \<in> supported_features self)"
| "library_supported self PODCAST = (LIBRARY_PODCASTS \<in> supported_features self)"
| "library_supported self _ = False"

subsection \<open>The provider-mapping consistency check\<close>

text \<open>
  \<^verbatim>\<open>_check_provider_mappings\<close>. The \<^verbatim>\<open>for\<close> loop returns or raises in its first
  iteration, so only the first mapping of the provider item is looked at; with no mapping
  at all the loop body never runs and the function returns \<^verbatim>\<open>False\<close>. Before it
  searches the library item, the code assigns
  \<^verbatim>\<open>provider_mapping.in_library = in_library\<close> on the provider item's own mapping
  object; the caller passes the same provider item on to \<^verbatim>\<open>update_item_in_library\<close>,
  so the function returns the provider item as it leaves it, next to the verdict.
  \<^verbatim>\<open>next(..., None)\<close> takes the first library mapping with the same provider instance
  and item id.
\<close>

definition same_mapping :: "ProviderMapping \<Rightarrow> ProviderMapping \<Rightarrow> bool" where
  "same_mapping provider_mapping x \<longleftrightarrow>
     provider_instance x = provider_instance provider_mapping \<and>
     mapping_item_id x = mapping_item_id provider_mapping"

text \<open>The key of a mapping within the mapping set of an item.\<close>

definition mapping_key :: "ProviderMapping \<Rightarrow> string \<times> string" where
  "mapping_key x = (provider_instance x, mapping_item_id x)"

definition check_provider_mappings ::
  "MusicProvider \<Rightarrow> int MediaItem \<Rightarrow> string MediaItem \<Rightarrow> bool \<Rightarrow>
     error + (bool \<times> string MediaItem)" where
  "check_provider_mappings self library_item provider_item in_lib =
     (case provider_mappings provider_item of
        [] \<Rightarrow> Inr (False, provider_item)
      | provider_mapping # others \<Rightarrow>
          if mapping_item_id provider_mapping \<noteq> item_id provider_item
          then Inl (MusicAssistantError ''Inconsistent provider mapping item_id's found'')
          else if provider_instance provider_mapping \<noteq> instance_id self
          then Inl (MusicAssistantError ''Inconsistent provider mapping instance_id's found'')
          else
            let provider_mapping' = provider_mapping\<lparr>in_library := in_lib\<rparr>;
                provider_item' =
                  provider_item\<lparr>provider_mappings := provider_mapping' # others\<rparr>
            in (case find (same_mapping provider_mapping') (provider_mappings library_item) of
                  None \<Rightarrow> Inr (False, provider_item')
                | Some library_mapping \<Rightarrow>
                    if in_library provider_mapping' \<noteq> in_library library_mapping
                    then Inr (False, provider_item')
                    else Inr (mapping_available provider_mapping'
                                = mapping_available library_mapping, provider_item')))"

section \<open>Actions: library state, exceptions and the calls made\<close>

text \<open>
  The library store holds, for every media controller, the list of its library items.
  An action runs on the library and gives back a value or the exception raised, the
  library as it leaves it, and the calls it made, in order. An exception does not undo
  the changes made before it.
\<close>

type_synonym library = "MediaType \<Rightarrow> int MediaItem list"

type_synonym 'a outcome = "(error + 'a) \<times> library \<times> event list"

type_synonym 'a action = "library \<Rightarrow> 'a outcome"

definition ret :: "'a \<Rightarrow> 'a action" where
  "ret x lib = (Inr x, lib, [])"

definition raise :: "error \<Rightarrow> 'a action" where
  "raise e lib = (Inl e, lib, [])"

text \<open>Sequencing: the second action runs only when the first one returned.\<close>

definition and_then :: "'a action \<Rightarrow> ('a \<Rightarrow> 'b action) \<Rightarrow> 'b action" where
  "and_then m f lib =
     (case m lib of
        (Inl e, lib1, evs1) \<Rightarrow> (Inl e, lib1, evs1)
      | (Inr x, lib1, evs1) \<Rightarrow>
          (case f x lib1 of (r, lib2, evs2) \<Rightarrow> (r, lib2, evs1 @ evs2)))"

text \<open>
  \<^verbatim>\<open>try: m except C as err: handler\<close>, where \<open>catches\<close> tells which exceptions are
  instances of the class \<open>C\<close>. Any other exception propagates.
\<close>

definition try_except :: "(error \<Rightarrow> bool) \<Rightarrow> 'a action \<Rightarrow> (error \<Rightarrow> 'a action) \<Rightarrow> 'a action" where
  "try_except catches m handler lib =
     (case m lib of
        (Inl e, lib1, evs1) \<Rightarrow>
          if catches e
          then (case handler e lib1 of (r, lib2, evs2) \<Rightarrow> (r, lib2, evs1 @ evs2))
          else (Inl e, lib1, evs1)
      | (Inr x, lib1, evs1) \<Rightarrow> (Inr x, lib1, evs1))"

text \<open>
  One call on a collaborator: the call is recorded; it raises what \<open>faults\<close> says, and
  otherwise does what the collaborator does.
\<close>

definition call :: "MusicProvider \<Rightarrow> event \<Rightarrow> (library \<Rightarrow> (error + 'a) \<times> library) \<Rightarrow> 'a action" where
  "call self ev f lib =
     (case faults self ev of
        Some e \<Rightarrow> (Inl e, lib, [ev])
      | None \<Rightarrow> (case f lib of (r, lib') \<Rightarrow> (r, lib', [ev])))"

section \<open>The library store\<close>

text \<open>
  Modelled from the spec: the media controllers (\<^verbatim>\<open>self.mass.music.artists\<close>, ...,
  \<^verbatim>\<open>get_controller(media_type)\<close>) are not among the source files. The specification
  gives their interface: \<open>lookupByMapping(mappings) \<rightarrow> Entity?\<close>, \<open>add(item) \<rightarrow> Entity\<close>,
  \<open>update(id, item) \<rightarrow> Entity\<close>, \<open>remove(id, recursive) \<rightarrow> void | DependentsError\<close>,
  \<open>setFavorite(id, bool) \<rightarrow> void\<close>, \<open>setProviderMappings(id, mappings) \<rightarrow> void\<close>,
  \<open>get(id) \<rightarrow> Entity | NotFound\<close>; an entity has an id assigned by the store, and a
  mapping is found by its provider instance id and source item id.
  Here \<open>add\<close> stores the item under an id larger than every id of the controller;
  \<open>update\<close> keeps the entity's id, provider, name, uri and favorite flag, takes the
  availability, checksum and resume state of the observed item, and replaces the
  mappings the observed item carries, keeping the others; \<open>remove\<close> deletes the entity
  (that it is blocked by dependents is a fault of the call; the cascade of a recursive
  removal to the tracks of an album is left out); \<open>setFavorite\<close> and
  \<open>setProviderMappings\<close> overwrite the field of the entity and do nothing when there is
  no such entity. Every definition of this section belongs to this model of the store.
\<close>

definition find_library_item :: "int MediaItem list \<Rightarrow> int \<Rightarrow> int MediaItem option" where
  "find_library_item items db_id = find (\<lambda>x. item_id x = db_id) items"

fun find_by_prov_mappings :: "int MediaItem list \<Rightarrow> ProviderMapping list \<Rightarrow> int MediaItem option" where
  "find_by_prov_mappings items [] = None"
| "find_by_prov_mappings items (m # ms) =
     (case find (\<lambda>x. list_ex (same_mapping m) (provider_mappings x)) items of
        Some x \<Rightarrow> Some x
      | None \<Rightarrow> find_by_prov_mappings items ms)"

definition next_id :: "int MediaItem list \<Rightarrow> int" where
  "next_id items = fold max (map item_id items) 0 + 1"

definition new_library_item :: "int \<Rightarrow> string MediaItem \<Rightarrow> int MediaItem" where
  "new_library_item db_id item =
     \<lparr>item_id = db_id, provider = ''library'', name = name item, uri = uri item,
      favorite = favorite item, available = available item,
      cache_checksum = cache_checksum item, resume_position_ms = resume_position_ms item,
      fully_played = fully_played item, provider_mappings = provider_mappings item\<rparr>"

definition merge_item :: "int MediaItem \<Rightarrow> string MediaItem \<Rightarrow> int MediaItem" where
  "merge_item cur upd =
     cur\<lparr>available := available upd,
         cache_checksum := cache_checksum upd,
         resume_position_ms := resume_position_ms upd,
         fully_played := fully_played upd,
         provider_mappings :=
           provider_mappings upd
           @ filter (\<lambda>x. \<not> list_ex (same_mapping x) (provider_mappings upd))
               (provider_mappings cur)\<rparr>"

definition get_library_item_by_prov_mappings ::
  "MusicProvider \<Rightarrow> MediaType \<Rightarrow> ProviderMapping list \<Rightarrow> int MediaItem option action" where
  "get_library_item_by_prov_mappings self ctrl mappings =
     call self (GetLibraryItemByProvMappings ctrl mappings)
       (\<lambda>lib. (Inr (find_by_prov_mappings (lib ctrl) mappings), lib))"

definition get_library_item :: "MusicProvider \<Rightarrow> MediaType \<Rightarrow> int \<Rightarrow> int MediaItem action" where
  "get_library_item self ctrl db_id =
     call self (GetLibraryItem ctrl db_id)
       (\<lambda>lib. case find_library_item (lib ctrl) db_id of
                 None \<Rightarrow> (Inl (MediaNotFoundError ''item not found in library''), lib)
               | Some x \<Rightarrow> (Inr x, lib))"

definition add_item_to_library ::
  "MusicProvider \<Rightarrow> MediaType \<Rightarrow> string MediaItem \<Rightarrow> int MediaItem action" where
  "add_item_to_library self ctrl item =
     call self (AddItemToLibrary ctrl item)
       (\<lambda>lib. let x = new_library_item (next_id (lib ctrl)) item
               in (Inr x, lib(ctrl := lib ctrl @ [x])))"

definition update_item_in_library ::
  "MusicProvider \<Rightarrow> MediaType \<Rightarrow> int \<Rightarrow> string MediaItem \<Rightarrow> int MediaItem action" where
  "update_item_in_library self ctrl db_id upd =
     call self (UpdateItemInLibrary ctrl db_id upd)
       (\<lambda>lib. case find_library_item (lib ctrl) db_id of
                 None \<Rightarrow> (Inl (MediaNotFoundError ''item not found in library''), lib)
               | Some cur \<Rightarrow>
                   (Inr (merge_item cur upd),
                    lib(ctrl := map (\<lambda>x. if item_id x = db_id then merge_item x upd else x)
                                  (lib ctrl))))"

definition with_favorite :: "library \<Rightarrow> MediaType \<Rightarrow> int \<Rightarrow> bool \<Rightarrow> library" where
  "with_favorite lib ctrl db_id fav =
     lib(ctrl := map (\<lambda>x. if item_id x = db_id then x\<lparr>favorite := fav\<rparr> else x) (lib ctrl))"

definition with_provider_mappings ::
  "library \<Rightarrow> MediaType \<Rightarrow> int \<Rightarrow> ProviderMapping list \<Rightarrow> library" where
  "with_provider_mappings lib ctrl db_id mappings =
     lib(ctrl := map (\<lambda>x. if item_id x = db_id then x\<lparr>provider_mappings := mappings\<rparr> else x)
                   (lib ctrl))"

definition without_item :: "library \<Rightarrow> MediaType \<Rightarrow> int \<Rightarrow> library" where
  "without_item lib ctrl db_id = lib(ctrl := filter (\<lambda>x. item_id x \<noteq> db_id) (lib ctrl))"

definition set_favorite :: "MusicProvider \<Rightarrow> MediaType \<Rightarrow> int \<Rightarrow> bool \<Rightarrow> unit action" where
  "set_favorite self ctrl db_id fav =
     call self (SetFavorite ctrl db_id fav) (\<lambda>lib. (Inr (), with_favorite lib ctrl db_id fav))"

definition set_provider_mappings ::
  "MusicProvider \<Rightarrow> MediaType \<Rightarrow> int \<Rightarrow> ProviderMapping list \<Rightarrow> unit action" where
  "set_provider_mappings self ctrl db_id mappings =
     call self (SetProviderMappings ctrl db_id mappings)
       (\<lambda>lib. (Inr (), with_provider_mappings lib ctrl db_id mappings))"

definition remove_item_from_library ::
  "MusicProvider \<Rightarrow> MediaType \<Rightarrow> int \<Rightarrow> bool \<Rightarrow> unit action" where
  "remove_item_from_library self ctrl db_id recursive =
     call self (RemoveItemFromLibrary ctrl db_id recursive)
       (\<lambda>lib. (Inr (), without_item lib ctrl db_id))"

text \<open>
  \<^verbatim>\<open>self.mass.music.podcasts.episodes(item_id, provider)\<close>, which the podcast sync
  iterates to warm the cache: a read of the store that may raise.
\<close>

definition podcast_episodes :: "MusicProvider \<Rightarrow> int \<Rightarrow> string \<Rightarrow> unit action" where
  "podcast_episodes self db_id prov = call self (PodcastEpisodes db_id prov) (\<lambda>lib. (Inr (), lib))"

subsection \<open>The catalog API of the provider\<close>

definition get_album_tracks :: "MusicProvider \<Rightarrow> string \<Rightarrow> string MediaItem list action" where
  "get_album_tracks self prov_album_id =
     call self (GetAlbumTracks prov_album_id) (\<lambda>lib. (Inr (album_tracks self prov_album_id), lib))"

definition get_playlist_tracks ::
  "MusicProvider \<Rightarrow> string \<Rightarrow> nat \<Rightarrow> string MediaItem list action" where
  "get_playlist_tracks self prov_playlist_id page =
     call self (GetPlaylistTracks prov_playlist_id page)
       (\<lambda>lib. (Inr (if page < length (playlist_pages self prov_playlist_id)
                     then playlist_pages self prov_playlist_id ! page else []), lib))"

section \<open>The reconciler\<close>

text \<open>
  The loops of the sync code. \<open>for_each\<close> is a loop whose body returns nothing;
  \<open>async_for\<close> is a loop over the items of a generator whose body works on the set
  \<^verbatim>\<open>cur_db_ids\<close> of database ids seen so far. \<^verbatim>\<open>cur_db_ids\<close> is a Python set; the
  list holds its members once each, and \<^verbatim>\<open>cur_db_ids.add\<close> is \<open>List.insert\<close>.
  The yields to the event loop (\<^verbatim>\<open>await asyncio.sleep(0)\<close>) and the log messages are
  left out.
\<close>

fun for_each :: "('a \<Rightarrow> unit action) \<Rightarrow> 'a list \<Rightarrow> unit action" where
  "for_each body [] = ret ()"
| "for_each body (x # xs) = and_then (body x) (\<lambda>_. for_each body xs)"

fun async_for :: "('a \<Rightarrow> int list \<Rightarrow> int list action) \<Rightarrow> 'a list \<Rightarrow> int list \<Rightarrow> int list action" where
  "async_for body [] cur_db_ids = ret cur_db_ids"
| "async_for body (x # xs) cur_db_ids = and_then (body x cur_db_ids) (async_for body xs)"

text \<open>
  \<^verbatim>\<open>async for prov_item in self.get_library_...()\<close>, starting from an empty
  \<^verbatim>\<open>cur_db_ids\<close>: the generator is called, its items are handled one by one, and an
  exception the generator ends with propagates to the caller of the sync function (the
  \<^verbatim>\<open>async for\<close> statement stands outside every \<^verbatim>\<open>try\<close>).
\<close>

definition iterate_library ::
  "MusicProvider \<Rightarrow> MediaType \<Rightarrow> (string MediaItem \<Rightarrow> int list \<Rightarrow> int list action) \<Rightarrow>
     int list action" where
  "iterate_library self media_type body =
     and_then (\<lambda>lib. (Inr (), lib, [GetLibraryItems media_type]))
       (\<lambda>_. case library_gen self media_type of
               (prov_items, failure) \<Rightarrow>
                 and_then (async_for body prov_items [])
                   (\<lambda>cur_db_ids. case failure of
                                    None \<Rightarrow> ret cur_db_ids
                                  | Some e \<Rightarrow> raise e))"

subsection \<open>The branches the sync functions share\<close>

text \<open>
  Each branch gives back the library item and the provider item as the branch leaves
  them: the code rebinds \<^verbatim>\<open>library_item\<close> and mutates \<^verbatim>\<open>prov_item\<close> in place, and
  later statements of the same iteration read both.

  \<open>add_new_item\<close>:
  \<^verbatim>\<open>if import_as_favorite: prov_item.favorite = True\<close>
  \<^verbatim>\<open>library_item = await ctrl.add_item_to_library(prov_item)\<close>
\<close>

definition add_new_item ::
  "MusicProvider \<Rightarrow> MediaType \<Rightarrow> bool \<Rightarrow> string MediaItem \<Rightarrow>
     (int MediaItem \<times> string MediaItem) action" where
  "add_new_item self ctrl import_as_favorite prov_item =
     (let prov_item' = (if import_as_favorite then prov_item\<lparr>favorite := True\<rparr> else prov_item)
      in and_then (add_item_to_library self ctrl prov_item')
           (\<lambda>library_item. ret (library_item, prov_item')))"

text \<open>
  \<open>promote_favorite\<close>:
  \<^verbatim>\<open>await ctrl.set_favorite(library_item.item_id, True)\<close>;
  \<^verbatim>\<open>library_item\<close> is not read again from the store.
\<close>

definition promote_favorite ::
  "MusicProvider \<Rightarrow> MediaType \<Rightarrow> int MediaItem \<Rightarrow> string MediaItem \<Rightarrow>
     (int MediaItem \<times> string MediaItem) action" where
  "promote_favorite self ctrl library_item prov_item =
     and_then (set_favorite self ctrl (item_id library_item) True)
       (\<lambda>_. ret (library_item, prov_item))"

text \<open>
  \<open>update_item\<close>:
  \<^verbatim>\<open>library_item = await ctrl.update_item_in_library(library_item.item_id, prov_item)\<close>
\<close>

definition update_item ::
  "MusicProvider \<Rightarrow> MediaType \<Rightarrow> int MediaItem \<Rightarrow> string MediaItem \<Rightarrow>
     (int MediaItem \<times> string MediaItem) action" where
  "update_item self ctrl library_item prov_item =
     and_then (update_item_in_library self ctrl (item_id library_item) prov_item)
       (\<lambda>library_item'. ret (library_item', prov_item))"

text \<open>
  \<open>update_on_mismatch\<close>, the last branch of every chain:
  \<^verbatim>\<open>elif not self._check_provider_mappings(library_item, prov_item, True):\<close>
  \<^verbatim>\<open>    library_item = await ctrl.update_item_in_library(library_item.item_id, prov_item)\<close>
\<close>

definition update_on_mismatch ::
  "MusicProvider \<Rightarrow> MediaType \<Rightarrow> int MediaItem \<Rightarrow> string MediaItem \<Rightarrow>
     (int MediaItem \<times> string MediaItem) action" where
  "update_on_mismatch self ctrl library_item prov_item =
     (case check_provider_mappings self library_item prov_item True of
        Inl e \<Rightarrow> raise e
      | Inr (consistent, prov_item') \<Rightarrow>
          if \<not> consistent then update_item self ctrl library_item prov_item'
          else ret (library_item, prov_item'))"

text \<open>
  The statements of a \<^verbatim>\<open>try\<close> block that follow \<^verbatim>\<open>cur_db_ids.add(...)\<close>: the set is
  mutated in place, so the id stays recorded when one of them raises an exception that
  the block's \<^verbatim>\<open>except MusicAssistantError\<close> catches.
\<close>

definition after_recording :: "int list \<Rightarrow> unit action \<Rightarrow> int list action" where
  "after_recording cur_db_ids rest =
     try_except is_MusicAssistantError
       (and_then rest (\<lambda>_. ret cur_db_ids))
       (\<lambda>err. ret cur_db_ids)"

subsection \<open>Tracks of an album and of a playlist\<close>

text \<open>
  The body of the loops of \<^verbatim>\<open>_sync_album_tracks\<close> and \<^verbatim>\<open>_sync_playlist_tracks\<close>
  (the two bodies are the same statements): the lookup stands before the \<^verbatim>\<open>try\<close>.
  A track that is not in the library is added as it is; these loops have no
  \<open>import_as_favorite\<close>.
\<close>

definition sync_child_track :: "MusicProvider \<Rightarrow> string MediaItem \<Rightarrow> unit action" where
  "sync_child_track self prov_track =
     and_then (get_library_item_by_prov_mappings self TRACK (provider_mappings prov_track))
       (\<lambda>library_track.
          try_except is_MusicAssistantError
            (and_then
               (case library_track of
                  None \<Rightarrow> add_new_item self TRACK False prov_track
                | Some library_track \<Rightarrow> update_on_mismatch self TRACK library_track prov_track)
               (\<lambda>_. ret ()))
            (\<lambda>err. ret ()))"

definition sync_album_tracks :: "MusicProvider \<Rightarrow> string MediaItem \<Rightarrow> unit action" where
  "sync_album_tracks self provider_album =
     and_then (get_album_tracks self (item_id provider_album))
       (for_each (sync_child_track self))"

text \<open>
  \<^verbatim>\<open>_sync_playlist_tracks\<close> over \<^verbatim>\<open>iter_playlist_tracks\<close>: the generator asks for page
  0, 1, ... and stops at the first empty page; the consumer handles the tracks of a page
  before the next page is asked for.
\<close>

function sync_playlist_tracks_from ::
  "MusicProvider \<Rightarrow> string MediaItem \<Rightarrow> nat \<Rightarrow> unit action" where
  "sync_playlist_tracks_from self provider_playlist page lib =
     (case get_playlist_tracks self (item_id provider_playlist) page lib of
        (Inl e, lib1, evs1) \<Rightarrow> (Inl e, lib1, evs1)
      | (Inr tracks, lib1, evs1) \<Rightarrow>
          if tracks = [] then (Inr (), lib1, evs1)
          else (case for_each (sync_child_track self) tracks lib1 of
                  (Inl e, lib2, evs2) \<Rightarrow> (Inl e, lib2, evs1 @ evs2)
                | (Inr u, lib2, evs2) \<Rightarrow>
                    (case sync_playlist_tracks_from self provider_playlist (page + 1) lib2 of
                       (r, lib3, evs3) \<Rightarrow> (r, lib3, evs1 @ evs2 @ evs3))))"
  by pat_completeness auto
termination
  by (relation "measure (\<lambda>(self, provider_playlist, page, lib).
                   length (playlist_pages self (item_id provider_playlist)) - page)")
     (auto simp: get_playlist_tracks_def call_def split: option.splits if_splits)

declare sync_playlist_tracks_from.simps [simp del]

definition sync_playlist_tracks :: "MusicProvider \<Rightarrow> string MediaItem \<Rightarrow> unit action" where
  "sync_playlist_tracks self provider_playlist = sync_playlist_tracks_from self provider_playlist 0"

subsection \<open>The sync functions, one iteration each\<close>

text \<open>
  The body of the \<^verbatim>\<open>async for\<close> loop of each of the seven sync functions. In all of
  them \<^verbatim>\<open>get_library_item_by_prov_mappings\<close> is called before the \<^verbatim>\<open>try\<close>
  statement, so an exception of the lookup is not caught; the handler
  \<^verbatim>\<open>except MusicAssistantError\<close> of the \<^verbatim>\<open>try\<close> logs a warning and the loop goes on
  with the next item.
\<close>

text \<open>\<^verbatim>\<open>_sync_library_artists\<close>\<close>

definition sync_library_artists_item ::
  "MusicProvider \<Rightarrow> bool \<Rightarrow> string MediaItem \<Rightarrow> int list \<Rightarrow> int list action" where
  "sync_library_artists_item self import_as_favorite prov_item cur_db_ids =
     and_then (get_library_item_by_prov_mappings self ARTIST (provider_mappings prov_item))
       (\<lambda>library_item.
          try_except is_MusicAssistantError
            (and_then
               (case library_item of
                  None \<Rightarrow> add_new_item self ARTIST import_as_favorite prov_item
                | Some library_item \<Rightarrow>
                    if \<not> favorite library_item \<and> import_as_favorite
                    then promote_favorite self ARTIST library_item prov_item
                    else update_on_mismatch self ARTIST library_item prov_item)
               (\<lambda>(library_item, prov_item).
                  ret (List.insert (item_id library_item) cur_db_ids)))
            (\<lambda>err. ret cur_db_ids))"

text \<open>
  \<^verbatim>\<open>_sync_library_albums\<close>: after the id is recorded, the tracks of the album are
  synced when the configuration asks for it.
\<close>

definition sync_library_albums_item ::
  "MusicProvider \<Rightarrow> bool \<Rightarrow> string MediaItem \<Rightarrow> int list \<Rightarrow> int list action" where
  "sync_library_albums_item self import_as_favorite prov_item cur_db_ids =
     and_then (get_library_item_by_prov_mappings self ALBUM (provider_mappings prov_item))
       (\<lambda>library_item.
          try_except is_MusicAssistantError
            (and_then
               (case library_item of
                  None \<Rightarrow> add_new_item self ALBUM import_as_favorite prov_item
                | Some library_item \<Rightarrow>
                    if \<not> favorite library_item \<and> import_as_favorite
                    then promote_favorite self ALBUM library_item prov_item
                    else update_on_mismatch self ALBUM library_item prov_item)
               (\<lambda>(library_item, prov_item).
                  after_recording (List.insert (item_id library_item) cur_db_ids)
                    (if conf_sync_album_tracks self then sync_album_tracks self prov_item
                     else ret ())))
            (\<lambda>err. ret cur_db_ids))"

text \<open>
  \<^verbatim>\<open>_sync_library_audiobooks\<close>: the check of the resume state is a statement of its
  own after the chain, so it runs whichever branch the chain took.
\<close>

definition sync_library_audiobooks_item ::
  "MusicProvider \<Rightarrow> bool \<Rightarrow> string MediaItem \<Rightarrow> int list \<Rightarrow> int list action" where
  "sync_library_audiobooks_item self import_as_favorite prov_item cur_db_ids =
     and_then (get_library_item_by_prov_mappings self AUDIOBOOK (provider_mappings prov_item))
       (\<lambda>library_item.
          try_except is_MusicAssistantError
            (and_then
               (case library_item of
                  None \<Rightarrow> add_new_item self AUDIOBOOK import_as_favorite prov_item
                | Some library_item \<Rightarrow>
                    if \<not> favorite library_item \<and> import_as_favorite
                    then promote_favorite self AUDIOBOOK library_item prov_item
                    else update_on_mismatch self AUDIOBOOK library_item prov_item)
               (\<lambda>(library_item, prov_item).
                  and_then
                    (if resume_position_ms prov_item \<noteq> None \<and> fully_played prov_item \<noteq> None
                        \<and> (resume_position_ms library_item \<noteq> resume_position_ms prov_item
                           \<or> fully_played library_item \<noteq> fully_played prov_item)
                     then update_item_in_library self AUDIOBOOK (item_id library_item) prov_item
                     else ret library_item)
                    (\<lambda>library_item. ret (List.insert (item_id library_item) cur_db_ids))))
            (\<lambda>err. ret cur_db_ids))"

text \<open>
  \<^verbatim>\<open>_sync_library_playlists\<close>: the checksum is compared before the favorite flag; after
  the id is recorded, the tracks of the playlist are synced when its name or uri is in the
  configured list.
\<close>

definition sync_library_playlists_item ::
  "MusicProvider \<Rightarrow> bool \<Rightarrow> string MediaItem \<Rightarrow> int list \<Rightarrow> int list action" where
  "sync_library_playlists_item self import_as_favorite prov_item cur_db_ids =
     and_then (get_library_item_by_prov_mappings self PLAYLIST (provider_mappings prov_item))
       (\<lambda>library_item.
          try_except is_MusicAssistantError
            (and_then
               (case library_item of
                  None \<Rightarrow> add_new_item self PLAYLIST import_as_favorite prov_item
                | Some library_item \<Rightarrow>
                    if cache_checksum library_item \<noteq> cache_checksum prov_item
                    then update_item self PLAYLIST library_item prov_item
                    else if \<not> favorite library_item \<and> import_as_favorite
                    then promote_favorite self PLAYLIST library_item prov_item
                    else update_on_mismatch self PLAYLIST library_item prov_item)
               (\<lambda>(library_item, prov_item).
                  after_recording (List.insert (item_id library_item) cur_db_ids)
                    (if name prov_item \<in> set (conf_sync_playlist_tracks self)
                        \<or> uri prov_item \<in> set (conf_sync_playlist_tracks self)
                     then sync_playlist_tracks self prov_item
                     else ret ())))
            (\<lambda>err. ret cur_db_ids))"

text \<open>
  \<^verbatim>\<open>_sync_library_tracks\<close>: a track that is not in the library and not available is
  skipped with \<^verbatim>\<open>continue\<close>; the availability is compared before the favorite flag.
\<close>

definition sync_library_tracks_item ::
  "MusicProvider \<Rightarrow> bool \<Rightarrow> string MediaItem \<Rightarrow> int list \<Rightarrow> int list action" where
  "sync_library_tracks_item self import_as_favorite prov_item cur_db_ids =
     and_then (get_library_item_by_prov_mappings self TRACK (provider_mappings prov_item))
       (\<lambda>library_item.
          try_except is_MusicAssistantError
            (if library_item = None \<and> \<not> available prov_item then ret cur_db_ids
             else
               and_then
                 (case library_item of
                    None \<Rightarrow> add_new_item self TRACK import_as_favorite prov_item
                  | Some library_item \<Rightarrow>
                      if available library_item \<noteq> available prov_item
                      then update_item self TRACK library_item prov_item
                      else if \<not> favorite library_item \<and> import_as_favorite
                      then promote_favorite self TRACK library_item prov_item
                      else update_on_mismatch self TRACK library_item prov_item)
                 (\<lambda>(library_item, prov_item).
                    ret (List.insert (item_id library_item) cur_db_ids)))
            (\<lambda>err. ret cur_db_ids))"

text \<open>
  \<^verbatim>\<open>_sync_library_podcasts\<close>: after the id is recorded, the episodes of the podcast are
  iterated.
\<close>

definition sync_library_podcasts_item ::
  "MusicProvider \<Rightarrow> bool \<Rightarrow> string MediaItem \<Rightarrow> int list \<Rightarrow> int list action" where
  "sync_library_podcasts_item self import_as_favorite prov_item cur_db_ids =
     and_then (get_library_item_by_prov_mappings self PODCAST (provider_mappings prov_item))
       (\<lambda>library_item.
          try_except is_MusicAssistantError
            (and_then
               (case library_item of
                  None \<Rightarrow> add_new_item self PODCAST import_as_favorite prov_item
                | Some library_item \<Rightarrow>
                    if available library_item \<noteq> available prov_item
                    then update_item self PODCAST library_item prov_item
                    else if \<not> favorite library_item \<and> import_as_favorite
                    then promote_favorite self PODCAST library_item prov_item
                    else update_on_mismatch self PODCAST library_item prov_item)
               (\<lambda>(library_item, prov_item).
                  after_recording (List.insert (item_id library_item) cur_db_ids)
                    (podcast_episodes self (item_id library_item) (provider library_item))))
            (\<lambda>err. ret cur_db_ids))"

text \<open>\<^verbatim>\<open>_sync_library_radios\<close>\<close>

definition sync_library_radios_item ::
  "MusicProvider \<Rightarrow> bool \<Rightarrow> string MediaItem \<Rightarrow> int list \<Rightarrow> int list action" where
  "sync_library_radios_item self import_as_favorite prov_item cur_db_ids =
     and_then (get_library_item_by_prov_mappings self RADIO (provider_mappings prov_item))
       (\<lambda>library_item.
          try_except is_MusicAssistantError
            (and_then
               (case library_item of
                  None \<Rightarrow> add_new_item self RADIO import_as_favorite prov_item
                | Some library_item \<Rightarrow>
                    if \<not> favorite library_item \<and> import_as_favorite
                    then promote_favorite self RADIO library_item prov_item
                    else update_on_mismatch self RADIO library_item prov_item)
               (\<lambda>(library_item, prov_item).
                  ret (List.insert (item_id library_item) cur_db_ids)))
            (\<lambda>err. ret cur_db_ids))"

subsection \<open>The sync functions\<close>

definition sync_library_artists :: "MusicProvider \<Rightarrow> bool \<Rightarrow> int list action" where
  "sync_library_artists self import_as_favorite =
     iterate_library self ARTIST (sync_library_artists_item self import_as_favorite)"

definition sync_library_albums :: "MusicProvider \<Rightarrow> bool \<Rightarrow> int list action" where
  "sync_library_albums self import_as_favorite =
     iterate_library self ALBUM (sync_library_albums_item self import_as_favorite)"

definition sync_library_audiobooks :: "MusicProvider \<Rightarrow> bool \<Rightarrow> int list action" where
  "sync_library_audiobooks self import_as_favorite =
     iterate_library self AUDIOBOOK (sync_library_audiobooks_item self import_as_favorite)"

definition sync_library_playlists :: "MusicProvider \<Rightarrow> bool \<Rightarrow> int list action" where
  "sync_library_playlists self import_as_favorite =
     iterate_library self PLAYLIST (sync_library_playlists_item self import_as_favorite)"

definition sync_library_tracks :: "MusicProvider \<Rightarrow> bool \<Rightarrow> int list action" where
  "sync_library_tracks self import_as_favorite =
     iterate_library self TRACK (sync_library_tracks_item self import_as_favorite)"

definition sync_library_podcasts :: "MusicProvider \<Rightarrow> bool \<Rightarrow> int list action" where
  "sync_library_podcasts self import_as_favorite =
     iterate_library self PODCAST (sync_library_podcasts_item self import_as_favorite)"

definition sync_library_radios :: "MusicProvider \<Rightarrow> bool \<Rightarrow> int list action" where
  "sync_library_radios self import_as_favorite =
     iterate_library self RADIO (sync_library_radios_item self import_as_favorite)"

section \<open>The orphan collector and the sync pass\<close>

text \<open>
  The loop
  \<^verbatim>\<open>for prov_map in library_item.provider_mappings:\<close>
  \<^verbatim>\<open>    if prov_map.provider_instance == self.instance_id: prov_map.in_library = False\<close>
\<close>

definition demote :: "MusicProvider \<Rightarrow> ProviderMapping list \<Rightarrow> ProviderMapping list" where
  "demote self mappings =
     map (\<lambda>prov_map. if provider_instance prov_map = instance_id self
                      then prov_map\<lparr>in_library := False\<rparr> else prov_map) mappings"

definition remaining_providers :: "MusicProvider \<Rightarrow> int MediaItem \<Rightarrow> string set" where
  "remaining_providers self library_item =
     set (map provider_instance
            (filter (\<lambda>x. provider_instance x \<noteq> instance_id self \<and> in_library x)
               (provider_mappings library_item)))"

text \<open>
  One iteration of the loop \<^verbatim>\<open>for db_id in prev_library_items\<close> of
  \<^verbatim>\<open>sync_library\<close>. Only the call of \<^verbatim>\<open>get_library_item\<close> stands in the
  \<^verbatim>\<open>try\<close> whose handler catches \<^verbatim>\<open>MediaNotFoundError\<close> and goes on with the next
  id; the \<^verbatim>\<open>try\<close> around the removal catches every \<^verbatim>\<open>MusicAssistantError\<close>.
\<close>

definition process_deletion :: "MusicProvider \<Rightarrow> MediaType \<Rightarrow> int list \<Rightarrow> int \<Rightarrow> unit action" where
  "process_deletion self media_type cur_db_ids db_id =
     (if db_id \<in> set cur_db_ids then ret ()
      else
        and_then
          (try_except is_MediaNotFoundError
             (and_then (get_library_item self media_type db_id) (\<lambda>x. ret (Some x)))
             (\<lambda>err. ret None))
          (\<lambda>found. case found of
             None \<Rightarrow> ret ()
           | Some library_item \<Rightarrow>
               if remaining_providers self library_item \<noteq> {}
               then set_provider_mappings self media_type db_id
                      (demote self (provider_mappings library_item))
               else
                 try_except is_MusicAssistantError
                   (remove_item_from_library self media_type db_id (media_type = ALBUM))
                   (\<lambda>err.
                      and_then
                        (if favorite library_item then set_favorite self media_type db_id False
                         else ret ())
                        (\<lambda>_. set_provider_mappings self media_type db_id
                                (demote self (provider_mappings library_item))))))"

text \<open>
  \<^verbatim>\<open>if prev_library_items := await self.mass.cache.get(...)\<close>: the loop runs when the
  cache holds a non-empty list.
\<close>

definition process_deletions ::
  "MusicProvider \<Rightarrow> MediaType \<Rightarrow> int list option \<Rightarrow> int list \<Rightarrow> unit action" where
  "process_deletions self media_type prev_library_items cur_db_ids =
     (case prev_library_items of
        None \<Rightarrow> ret ()
      | Some ids \<Rightarrow>
          if ids = [] then ret ()
          else for_each (process_deletion self media_type cur_db_ids) ids)"

text \<open>
  The dispatch of \<^verbatim>\<open>sync_library\<close> on the media type. The message of the last
  branch ends with the media type in the source.
\<close>

fun sync_library_items :: "MusicProvider \<Rightarrow> MediaType \<Rightarrow> bool \<Rightarrow> int list action" where
  "sync_library_items self ARTIST import_as_favorite = sync_library_artists self import_as_favorite"
| "sync_library_items self ALBUM import_as_favorite = sync_library_albums self import_as_favorite"
| "sync_library_items self TRACK import_as_favorite = sync_library_tracks self import_as_favorite"
| "sync_library_items self PLAYLIST import_as_favorite = sync_library_playlists self import_as_favorite"
| "sync_library_items self PODCAST import_as_favorite = sync_library_podcasts self import_as_favorite"
| "sync_library_items self RADIO import_as_favorite = sync_library_radios self import_as_favorite"
| "sync_library_items self AUDIOBOOK import_as_favorite = sync_library_audiobooks self import_as_favorite"
| "sync_library_items self _ import_as_favorite =
     raise (UnsupportedFeaturedException ''Unexpected media type to sync'')"

text \<open>
  The state \<^verbatim>\<open>self.mass\<close> a sync pass works on: the library store and the snapshot
  cache. The cache category is the constant \<^verbatim>\<open>CACHE_CATEGORY_LIBRARY_ITEMS\<close> in every
  call, so an entry is keyed by the media type and the base key (the instance id).
  \<^verbatim>\<open>list(cur_db_ids)\<close> is the list that stands for the set.
\<close>

record MusicAssistant =
  music :: library
  cache :: "MediaType \<times> string \<Rightarrow> int list option"

definition sync_library ::
  "MusicProvider \<Rightarrow> MediaType \<Rightarrow> bool \<Rightarrow> MusicAssistant \<Rightarrow>
     (error + unit) \<times> MusicAssistant \<times> event list" where
  "sync_library self media_type import_as_favorite mass =
     (if \<not> library_supported self media_type
      then (Inl (UnsupportedFeaturedException ''Library sync not supported for this media type''),
            mass, [])
      else
        case sync_library_items self media_type import_as_favorite (music mass) of
          (Inl e, lib1, evs1) \<Rightarrow> (Inl e, mass\<lparr>music := lib1\<rparr>, evs1)
        | (Inr cur_db_ids, lib1, evs1) \<Rightarrow>
            let cache_base_key = instance_id self;
                prev_library_items = cache mass (media_type, cache_base_key)
            in (case process_deletions self media_type prev_library_items cur_db_ids lib1 of
                  (Inl e, lib2, evs2) \<Rightarrow>
                    (Inl e, mass\<lparr>music := lib2\<rparr>,
                     evs1 @ [CacheGet media_type cache_base_key] @ evs2)
                | (Inr u, lib2, evs2) \<Rightarrow>
                    (Inr (),
                     mass\<lparr>music := lib2,
                          cache := (cache mass)((media_type, cache_base_key) \<mapsto> cur_db_ids)\<rparr>,
                     evs1 @ [CacheGet media_type cache_base_key] @ evs2
                       @ [CacheSet media_type cur_db_ids cache_base_key])))"

section \<open>Invariants of actions\<close>

text \<open>
  A relation between the library before an action, the library after it and the calls
  made is composable when it holds of doing nothing and is closed under sequencing. An
  action upholds a relation when every run of it satisfies the relation, whether it
  returns or raises. When the calls on the store and on the catalog API uphold a
  composable relation, so does everything the sync code builds from them.
\<close>

definition composable :: "(library \<Rightarrow> library \<Rightarrow> event list \<Rightarrow> bool) \<Rightarrow> bool" where
  "composable R \<longleftrightarrow>
     (\<forall>lib. R lib lib [])
     \<and> (\<forall>lib lib1 lib2 evs1 evs2. R lib lib1 evs1 \<longrightarrow> R lib1 lib2 evs2 \<longrightarrow> R lib lib2 (evs1 @ evs2))"

definition upholds :: "(library \<Rightarrow> library \<Rightarrow> event list \<Rightarrow> bool) \<Rightarrow> 'a action \<Rightarrow> bool" where
  "upholds R m \<longleftrightarrow> (\<forall>lib r lib' evs. m lib = (r, lib', evs) \<longrightarrow> R lib lib' evs)"

definition tracks_upholds :: "(library \<Rightarrow> library \<Rightarrow> event list \<Rightarrow> bool) \<Rightarrow> MusicProvider \<Rightarrow> bool" where
  "tracks_upholds R self \<longleftrightarrow>
     (\<forall>c ms. upholds R (get_library_item_by_prov_mappings self c ms))
     \<and> (\<forall>c x. upholds R (add_item_to_library self c x))
     \<and> (\<forall>c i x. upholds R (update_item_in_library self c i x))
     \<and> (\<forall>a. upholds R (get_album_tracks self a))
     \<and> (\<forall>a n. upholds R (get_playlist_tracks self a n))"



text \<open>The calls that satisfy a predicate, as a relation on runs.\<close>

definition calls_satisfy :: "(event \<Rightarrow> bool) \<Rightarrow> library \<Rightarrow> library \<Rightarrow> event list \<Rightarrow> bool" where
  "calls_satisfy P lib lib' evs \<longleftrightarrow> list_all P evs"

fun is_SetFavorite :: "event \<Rightarrow> bool" where
  "is_SetFavorite (SetFavorite _ _ _) = True"
| "is_SetFavorite _ = False"


subsection \<open>Relations on runs\<close>

text \<open>
  \<open>demoted_from self after before\<close>: the list \<open>after\<close> is the list \<open>before\<close>, mapping by
  mapping, except that mappings of this provider instance may have their \<open>in_library\<close>
  flag set to False. A mapping of another provider instance is the same in both lists.
  \<open>mappings_frame\<close> says of a run that every item of the library after it stems from an
  item of the same id before it whose mappings were at most demoted, and that every write
  of mappings writes such a demotion of the mappings of the item it is written to.
\<close>

definition demoted_from :: "MusicProvider \<Rightarrow> ProviderMapping list \<Rightarrow> ProviderMapping list \<Rightarrow> bool" where
  "demoted_from self after before \<longleftrightarrow>
     list_all2 (\<lambda>m' m. m' = m \<or> (provider_instance m = instance_id self
                                  \<and> m' = m\<lparr>in_library := False\<rparr>)) after before"

definition mappings_frame :: "MusicProvider \<Rightarrow> library \<Rightarrow> library \<Rightarrow> event list \<Rightarrow> bool" where
  "mappings_frame self lib lib' evs \<longleftrightarrow>
     (\<forall>c. \<forall>x' \<in> set (lib' c). \<exists>x \<in> set (lib c).
         item_id x' = item_id x
         \<and> demoted_from self (provider_mappings x') (provider_mappings x))
     \<and> (\<forall>c i ms'. SetProviderMappings c i ms' \<in> set evs \<longrightarrow>
           (\<exists>x \<in> set (lib c). item_id x = i \<and> demoted_from self ms' (provider_mappings x)))"








section \<open>Example data\<close>

text \<open>
  A provider with private catalogs (not a streaming provider, several instances
  possible), a second provider instance, and items of both.
\<close>

definition plex :: MusicProvider where
  "plex = \<lparr>domain = ''plex'', instance_id = ''p1'', is_streaming_provider = False,
     multi_instance = True,
     supported_features = {LIBRARY_ARTISTS, LIBRARY_ALBUMS, LIBRARY_TRACKS, LIBRARY_PLAYLISTS},
     conf_sync_album_tracks = False, conf_sync_playlist_tracks = [],
     library_gen = (\<lambda>_. ([], None)), album_tracks = (\<lambda>_. []), playlist_pages = (\<lambda>_. []),
     faults = (\<lambda>_. None)\<rparr>"

definition mapping_of :: "string \<Rightarrow> string \<Rightarrow> bool \<Rightarrow> ProviderMapping" where
  "mapping_of inst prov_id in_lib =
     \<lparr>mapping_item_id = prov_id, provider_domain = ''plex'', provider_instance = inst,
      in_library = in_lib, mapping_available = True\<rparr>"

definition prov_item_of :: "string \<Rightarrow> ProviderMapping list \<Rightarrow> string MediaItem" where
  "prov_item_of prov_id mappings =
     \<lparr>item_id = prov_id, provider = ''p1'', name = prov_id, uri = prov_id,
      favorite = False, available = True, cache_checksum = None,
      resume_position_ms = None, fully_played = None, provider_mappings = mappings\<rparr>"

definition library_item_of :: "int \<Rightarrow> bool \<Rightarrow> ProviderMapping list \<Rightarrow> int MediaItem" where
  "library_item_of db_id fav mappings =
     \<lparr>item_id = db_id, provider = ''library'', name = ''x'', uri = ''x'',
      favorite = fav, available = True, cache_checksum = None,
      resume_position_ms = None, fully_played = None, provider_mappings = mappings\<rparr>"

definition no_library :: library where
  "no_library = (\<lambda>_. [])"

definition fresh_mass :: MusicAssistant where
  "fresh_mass = \<lparr>music = no_library, cache = (\<lambda>_. None)\<rparr>"











section \<open>Unfolding the definitions\<close>

lemmas example_defs = plex_def mapping_of_def prov_item_of_def library_item_of_def
  no_library_def fresh_mass_def


lemmas action_defs = and_then_def try_except_def ret_def raise_def call_def

lemmas store_defs =
  with_favorite_def with_provider_mappings_def without_item_def
  get_library_item_by_prov_mappings_def get_library_item_def add_item_to_library_def
  update_item_in_library_def set_favorite_def set_provider_mappings_def
  remove_item_from_library_def podcast_episodes_def get_album_tracks_def get_playlist_tracks_def

lemmas branch_defs =
  add_new_item_def promote_favorite_def update_item_def update_on_mismatch_def
  after_recording_def

section \<open>Properties of the provider descriptor and of the mapping check\<close>

text \<open>
  C9, as the code has it: the lookup key is the domain for a streaming provider and for a
  provider that is not multi-instance-capable; it is the instance id for a provider that
  is neither streaming nor single-instance.
\<close>

theorem lookup_key_by_design:
  "(is_streaming_provider self \<longrightarrow> lookup_key self = domain self)
   \<and> (\<not> multi_instance self \<longrightarrow> lookup_key self = domain self)
   \<and> (\<not> is_streaming_provider self \<and> multi_instance self \<longrightarrow> lookup_key self = instance_id self)"
  by (simp add: lookup_key_def)

theorem lookup_key_by_design_witness:
  "is_streaming_provider (plex\<lparr>is_streaming_provider := True\<rparr>)
   \<and> lookup_key (plex\<lparr>is_streaming_provider := True\<rparr>) = ''plex''
   \<and> \<not> multi_instance (plex\<lparr>multi_instance := False\<rparr>)
   \<and> lookup_key (plex\<lparr>multi_instance := False\<rparr>) = ''plex''
   \<and> \<not> is_streaming_provider plex \<and> multi_instance plex \<and> lookup_key plex = ''p1''"
  using lookup_key_by_design [of "plex\<lparr>is_streaming_provider := True\<rparr>"]
    lookup_key_by_design [of "plex\<lparr>multi_instance := False\<rparr>"]
    lookup_key_by_design [of plex]
  by (simp add: plex_def)

text \<open>
  C9 as the specification words it fails for a provider that is neither streaming nor
  multi-instance-capable: the code answers the domain, the specification's wording
  answers the instance id, whatever "differentiated" is.
\<close>

theorem lookup_key_counterexample:
  "lookup_key (plex\<lparr>multi_instance := False\<rparr>) = ''plex''
   \<and> lookup_key_spec True (plex\<lparr>multi_instance := False\<rparr>) = ''p1''
   \<and> lookup_key_spec False (plex\<lparr>multi_instance := False\<rparr>) = ''p1''"
  by (simp add: lookup_key_def lookup_key_spec_def plex_def)

lemma find_distinct_key:
  assumes "distinct (map mapping_key ms)"
  shows "find (same_mapping pm) ms = Some x \<longleftrightarrow> x \<in> set ms \<and> same_mapping pm x"
  using assms
proof (induction ms)
  case Nil then show ?case by simp
next
  case (Cons m ms)
  show ?case
  proof (cases "same_mapping pm m")
    case True
    have "\<And>y. y \<in> set ms \<Longrightarrow> same_mapping pm y \<Longrightarrow> False"
    proof -
      fix y assume y: "y \<in> set ms" "same_mapping pm y"
      then have "mapping_key y = mapping_key m" using True
        by (simp add: same_mapping_def mapping_key_def)
      with y(1) have "mapping_key m \<in> set (map mapping_key ms)"
        unfolding set_map by (metis imageI)
      with Cons.prems show False by simp
    qed
    with True show ?thesis by auto
  next
    case False
    with Cons show ?thesis by auto
  qed
qed

text \<open>
  C5: with no mapping on the observed item the check answers False; otherwise only the
  first mapping counts: the check raises when its item id is not the item's own id or
  its provider instance is not the syncing provider's instance id, and else answers
  whether the library item holds a mapping with the same provider instance and item id
  whose \<open>in_library\<close> flag is the requested value and whose \<open>available\<close> flag is the
  observed mapping's. The mapping keys of the library item are distinct, as in a mapping
  set.
\<close>

theorem check_provider_mappings_verdict:
  assumes "distinct (map mapping_key (provider_mappings library_item))"
  shows "(provider_mappings provider_item = [] \<longrightarrow>
            check_provider_mappings self library_item provider_item in_lib = Inr (False, provider_item))
       \<and> (\<forall>pm others. provider_mappings provider_item = pm # others \<longrightarrow>
            (if mapping_item_id pm \<noteq> item_id provider_item \<or> provider_instance pm \<noteq> instance_id self
             then \<exists>msg. check_provider_mappings self library_item provider_item in_lib
                       = Inl (MusicAssistantError msg)
             else check_provider_mappings self library_item provider_item in_lib
                  = Inr ((\<exists>x \<in> set (provider_mappings library_item).
                            provider_instance x = provider_instance pm
                            \<and> mapping_item_id x = mapping_item_id pm
                            \<and> in_library x = in_lib
                            \<and> mapping_available x = mapping_available pm),
                         provider_item\<lparr>provider_mappings := pm\<lparr>in_library := in_lib\<rparr> # others\<rparr>)))"
proof (intro conjI allI impI)
  assume "provider_mappings provider_item = []"
  then show "check_provider_mappings self library_item provider_item in_lib = Inr (False, provider_item)"
    by (simp add: check_provider_mappings_def)
next
  fix pm others
  assume pi: "provider_mappings provider_item = pm # others"
  let ?pm' = "pm\<lparr>in_library := in_lib\<rparr>"
  show "if mapping_item_id pm \<noteq> item_id provider_item \<or> provider_instance pm \<noteq> instance_id self
        then \<exists>msg. check_provider_mappings self library_item provider_item in_lib
                       = Inl (MusicAssistantError msg)
        else check_provider_mappings self library_item provider_item in_lib
                  = Inr ((\<exists>x \<in> set (provider_mappings library_item).
                            provider_instance x = provider_instance pm
                            \<and> mapping_item_id x = mapping_item_id pm
                            \<and> in_library x = in_lib
                            \<and> mapping_available x = mapping_available pm),
                         provider_item\<lparr>provider_mappings := pm\<lparr>in_library := in_lib\<rparr> # others\<rparr>)"
  proof (cases "mapping_item_id pm \<noteq> item_id provider_item \<or> provider_instance pm \<noteq> instance_id self")
    case True
    then show ?thesis using pi by (auto simp: check_provider_mappings_def)
  next
    case False
    show ?thesis
    proof (cases "find (same_mapping ?pm') (provider_mappings library_item)")
      case None
      then have "\<forall>x\<in>set (provider_mappings library_item). \<not> same_mapping ?pm' x"
        by (simp add: find_None_iff)
      then have "\<not> (\<exists>x \<in> set (provider_mappings library_item).
                            provider_instance x = provider_instance pm
                            \<and> mapping_item_id x = mapping_item_id pm
                            \<and> in_library x = in_lib
                            \<and> mapping_available x = mapping_available pm)"
        by (auto simp: same_mapping_def)
      with None False pi show ?thesis
        by (simp add: check_provider_mappings_def Let_def)
    next
      case (Some lm)
      then have lm: "lm \<in> set (provider_mappings library_item)" "same_mapping ?pm' lm"
        using find_distinct_key[OF assms] by blast+
      have uniq: "x = lm"
        if "x \<in> set (provider_mappings library_item)" "same_mapping ?pm' x" for x
      proof -
        from that have "find (same_mapping ?pm') (provider_mappings library_item) = Some x"
          using find_distinct_key[OF assms] by blast
        with Some show ?thesis by simp
      qed
      let ?ex = "\<exists>x \<in> set (provider_mappings library_item).
                            provider_instance x = provider_instance pm
                            \<and> mapping_item_id x = mapping_item_id pm
                            \<and> in_library x = in_lib
                            \<and> mapping_available x = mapping_available pm"
      have "?ex \<longleftrightarrow> (in_library lm = in_lib \<and> mapping_available lm = mapping_available pm)"
      proof
        assume ?ex
        then obtain x where x: "x \<in> set (provider_mappings library_item)"
          "provider_instance x = provider_instance pm" "mapping_item_id x = mapping_item_id pm"
          "in_library x = in_lib" "mapping_available x = mapping_available pm"
          by blast
        then have "same_mapping ?pm' x" by (simp add: same_mapping_def)
        with x(1) have "x = lm" by (rule uniq)
        with x show "in_library lm = in_lib \<and> mapping_available lm = mapping_available pm"
          by simp
      next
        assume "in_library lm = in_lib \<and> mapping_available lm = mapping_available pm"
        with lm show ?ex
          by (intro bexI[of _ lm]) (simp_all add: same_mapping_def)
      qed
      then have verdict: "(in_lib = in_library lm \<and> mapping_available pm = mapping_available lm) = ?ex"
        by auto
      have "check_provider_mappings self library_item provider_item in_lib
            = Inr (in_lib = in_library lm \<and> mapping_available pm = mapping_available lm,
                   provider_item\<lparr>provider_mappings := ?pm' # others\<rparr>)"
        using Some False pi by (simp add: check_provider_mappings_def Let_def)
      with False show ?thesis
        unfolding verdict by simp
    qed
  qed
qed

theorem check_provider_mappings_verdict_witness:
  "distinct (map mapping_key [mapping_of ''p1'' ''a'' True, mapping_of ''p2'' ''a'' False])
   \<and> check_provider_mappings plex
        (library_item_of 1 False [mapping_of ''p1'' ''a'' True, mapping_of ''p2'' ''a'' False])
        (prov_item_of ''a'' [mapping_of ''p1'' ''a'' False]) True
      = Inr (True, prov_item_of ''a'' [mapping_of ''p1'' ''a'' True])
   \<and> check_provider_mappings plex
        (library_item_of 1 False [mapping_of ''p1'' ''a'' True, mapping_of ''p2'' ''a'' False])
        (prov_item_of ''b'' [mapping_of ''p1'' ''a'' False]) True
      = Inl (MusicAssistantError ''Inconsistent provider mapping item_id's found'')"
  using check_provider_mappings_verdict
    [of "library_item_of 1 False [mapping_of ''p1'' ''a'' True, mapping_of ''p2'' ''a'' False]"
        "prov_item_of ''a'' [mapping_of ''p1'' ''a'' False]" plex True]
  by (simp add: check_provider_mappings_def same_mapping_def mapping_key_def plex_def
      mapping_of_def prov_item_of_def library_item_of_def)

section \<open>Every sync function upholds what the calls uphold\<close>

lemma upholds_ret: "composable R \<Longrightarrow> upholds R (ret x)"
  by (simp add: composable_def upholds_def ret_def)

lemma upholds_raise: "composable R \<Longrightarrow> upholds R (raise e)"
  by (simp add: composable_def upholds_def raise_def)

lemma upholds_and_then:
  assumes "composable R" "upholds R m" "\<And>x. upholds R (f x)"
  shows "upholds R (and_then m f)"
  unfolding upholds_def
proof (intro allI impI)
  fix lib r lib' evs
  assume run: "and_then m f lib = (r, lib', evs)"
  obtain r1 lib1 evs1 where m: "m lib = (r1, lib1, evs1)" by (cases "m lib") auto
  with assms(2) have R1: "R lib lib1 evs1" by (simp add: upholds_def)
  show "R lib lib' evs"
  proof (cases r1)
    case (Inl e)
    with run m have "lib' = lib1" "evs = evs1" by (simp_all add: and_then_def)
    with R1 show ?thesis by simp
  next
    case (Inr x)
    obtain r2 lib2 evs2 where f: "f x lib1 = (r2, lib2, evs2)" by (cases "f x lib1") auto
    with assms(3) have R2: "R lib1 lib2 evs2" by (simp add: upholds_def)
    from run m Inr f have "lib' = lib2" "evs = evs1 @ evs2" by (simp_all add: and_then_def)
    with R1 R2 assms(1) show ?thesis unfolding composable_def by blast
  qed
qed

lemma upholds_try_except:
  assumes "composable R" "upholds R m" "\<And>e. upholds R (h e)"
  shows "upholds R (try_except c m h)"
  unfolding upholds_def
proof (intro allI impI)
  fix lib r lib' evs
  assume run: "try_except c m h lib = (r, lib', evs)"
  obtain r1 lib1 evs1 where m: "m lib = (r1, lib1, evs1)" by (cases "m lib") auto
  with assms(2) have R1: "R lib lib1 evs1" by (simp add: upholds_def)
  show "R lib lib' evs"
  proof (cases r1)
    case (Inr x)
    with run m have "lib' = lib1" "evs = evs1" by (simp_all add: try_except_def)
    with R1 show ?thesis by simp
  next
    case (Inl e)
    show ?thesis
    proof (cases "c e")
      case False
      with run m Inl have "lib' = lib1" "evs = evs1" by (simp_all add: try_except_def)
      with R1 show ?thesis by simp
    next
      case True
      obtain r2 lib2 evs2 where f: "h e lib1 = (r2, lib2, evs2)" by (cases "h e lib1") auto
      with assms(3) have R2: "R lib1 lib2 evs2" by (simp add: upholds_def)
      from run m Inl True f have "lib' = lib2" "evs = evs1 @ evs2" by (simp_all add: try_except_def)
      with R1 R2 assms(1) show ?thesis unfolding composable_def by blast
    qed
  qed
qed

lemma upholds_if: "upholds R a \<Longrightarrow> upholds R b \<Longrightarrow> upholds R (if c then a else b)"
  by simp

lemma upholds_case_option:
  "upholds R a \<Longrightarrow> (\<And>x. upholds R (f x)) \<Longrightarrow> upholds R (case opt of None \<Rightarrow> a | Some x \<Rightarrow> f x)"
  by (cases opt) simp_all

lemma upholds_case_sum:
  "(\<And>x. upholds R (f x)) \<Longrightarrow> (\<And>y. upholds R (g y)) \<Longrightarrow>
     upholds R (case s of Inl x \<Rightarrow> f x | Inr y \<Rightarrow> g y)"
  by (cases s) simp_all

lemma upholds_case_prod:
  "(\<And>a b. upholds R (f a b)) \<Longrightarrow> upholds R (case p of (a, b) \<Rightarrow> f a b)"
  by (cases p) simp

lemma upholds_for_each:
  assumes "composable R" "\<And>x. upholds R (body x)"
  shows "upholds R (for_each body xs)"
  by (induction xs) (simp_all add: assms upholds_ret upholds_and_then)

lemma upholds_async_for:
  assumes "composable R" "\<And>x cur. upholds R (body x cur)"
  shows "upholds R (async_for body xs cur)"
  by (induction xs arbitrary: cur) (simp_all add: assms upholds_ret upholds_and_then)

lemmas upholds_intros =
  upholds_ret upholds_raise upholds_and_then upholds_try_except upholds_if
  upholds_case_option upholds_case_sum upholds_case_prod upholds_for_each upholds_async_for

lemma upholds_branches:
  assumes "composable R" "tracks_upholds R self"
  shows "upholds R (add_new_item self c fav x)"
    and "upholds R (update_item self c li x)"
    and "upholds R (update_on_mismatch self c li x)"
proof -
  show "upholds R (add_new_item self c fav x)"
    unfolding add_new_item_def Let_def
    using assms by (intro upholds_intros) (simp_all add: tracks_upholds_def)
  show upd: "upholds R (update_item self c li x)" for x
    unfolding update_item_def
    using assms by (intro upholds_intros) (simp_all add: tracks_upholds_def)
  show "upholds R (update_on_mismatch self c li x)"
    unfolding update_on_mismatch_def
    using assms by (intro upholds_intros upd) simp_all
qed



lemma upholds_sync_child_track:
  assumes "composable R" "tracks_upholds R self"
  shows "upholds R (sync_child_track self x)"
  unfolding sync_child_track_def
  using assms by (intro upholds_intros upholds_branches) (simp_all add: tracks_upholds_def)


lemma upholds_sync_playlist_tracks_from:
  assumes "composable R" "tracks_upholds R self"
  shows "upholds R (sync_playlist_tracks_from self pl page)"
proof -
  have trans: "R a b (e1 @ e2)" if "R a m e1" "R m b e2" for a m b e1 e2
    using assms(1) that unfolding composable_def by blast
  have "tracks_upholds R self \<Longrightarrow> sync_playlist_tracks_from self pl page lib = (r, lib', evs)
          \<Longrightarrow> R lib lib' evs"
    for lib r lib' evs
  proof (induction self pl page lib arbitrary: r lib' evs
         rule: sync_playlist_tracks_from.induct)
    case (1 self pl page lib)
    note su = "1.prems"(1)
    note run = "1.prems"(2)[unfolded sync_playlist_tracks_from.simps[of self pl page lib]]
    obtain r1 lib1 evs1 where g: "get_playlist_tracks self (item_id pl) page lib = (r1, lib1, evs1)"
      by (cases "get_playlist_tracks self (item_id pl) page lib") auto
    have R1: "R lib lib1 evs1"
      using su g unfolding tracks_upholds_def upholds_def by blast
    show ?case
    proof (cases r1)
      case (Inl e)
      with run g R1 show ?thesis by simp
    next
      case tr: (Inr tracks)
      show ?thesis
      proof (cases "tracks = []")
        case True
        with run g R1 tr show ?thesis by simp
      next
        case False
        obtain r2 lib2 evs2 where fe: "for_each (sync_child_track self) tracks lib1 = (r2, lib2, evs2)"
          by (cases "for_each (sync_child_track self) tracks lib1") auto
        have "upholds R (for_each (sync_child_track self) tracks)"
          using assms(1) su by (intro upholds_for_each upholds_sync_child_track)
        with fe have R2: "R lib1 lib2 evs2" unfolding upholds_def by blast
        show ?thesis
        proof (cases r2)
          case (Inl e)
          with run g tr False fe have "lib' = lib2" "evs = evs1 @ evs2" by simp_all
          with trans[OF R1 R2] show ?thesis by simp
        next
          case (Inr u)
          obtain r3 lib3 evs3 where rec:
            "sync_playlist_tracks_from self pl (page + 1) lib2 = (r3, lib3, evs3)"
            by (cases "sync_playlist_tracks_from self pl (page + 1) lib2") auto
          have R3: "R lib2 lib3 evs3"
            using "1.IH"[of r1 "(lib1, evs1)" tracks lib1 evs1 r2 "(lib2, evs2)" u lib2 evs2
                            r3 lib3 evs3] g tr False fe Inr su rec
            by simp
          from run g tr False fe Inr rec have "lib' = lib3" "evs = evs1 @ evs2 @ evs3"
            by simp_all
          with trans[OF R1 trans[OF R2 R3]] show ?thesis by simp
        qed
      qed
    qed
  qed
  with assms(2) show ?thesis by (simp add: upholds_def)
qed

lemma upholds_sync_playlist_tracks:
  "composable R \<Longrightarrow> tracks_upholds R self \<Longrightarrow> upholds R (sync_playlist_tracks self pl)"
  by (simp add: sync_playlist_tracks_def upholds_sync_playlist_tracks_from)






section \<open>The capability check\<close>

lemma iterate_library_first_call:
  "iterate_library self mt body lib = (r, lib', evs) \<Longrightarrow> \<exists>evs'. evs = GetLibraryItems mt # evs'"
  by (auto simp: iterate_library_def and_then_def split: prod.splits sum.splits)

lemma sync_library_items_first_call:
  assumes "library_supported self mt" "sync_library_items self mt fav lib = (r, lib', evs)"
  shows "\<exists>evs'. evs = GetLibraryItems mt # evs'"
  using assms
  by (cases mt)
     (auto simp: sync_library_artists_def sync_library_albums_def sync_library_tracks_def
        sync_library_playlists_def sync_library_podcasts_def sync_library_radios_def
        sync_library_audiobooks_def dest: iterate_library_first_call)

text \<open>
  C6: for a media type the provider does not declare library support for,
  \<^verbatim>\<open>sync_library\<close> raises \<open>UnsupportedFeaturedException\<close> with the library, the
  cache and the list of calls untouched: no catalog iteration, no store call, no
  snapshot write. For a supported media type the check lets the pass through: its first
  call is the catalog generator of that media type.
\<close>

theorem sync_library_capability_check:
  "(\<not> library_supported self media_type \<longrightarrow>
      sync_library self media_type import_as_favorite mass
      = (Inl (UnsupportedFeaturedException ''Library sync not supported for this media type''),
         mass, []))
   \<and> (library_supported self media_type \<longrightarrow>
        (\<exists>r mass' evs. sync_library self media_type import_as_favorite mass
                        = (r, mass', GetLibraryItems media_type # evs)))"
proof (intro conjI impI)
  assume "\<not> library_supported self media_type"
  then show "sync_library self media_type import_as_favorite mass
      = (Inl (UnsupportedFeaturedException ''Library sync not supported for this media type''),
         mass, [])"
    by (simp add: sync_library_def)
next
  assume sup: "library_supported self media_type"
  obtain r1 lib1 evs1 where run:
    "sync_library_items self media_type import_as_favorite (music mass) = (r1, lib1, evs1)"
    by (cases "sync_library_items self media_type import_as_favorite (music mass)") auto
  from sync_library_items_first_call[OF sup run] obtain evs' where "evs1 = GetLibraryItems media_type # evs'"
    by blast
  with sup run show "\<exists>r mass' evs. sync_library self media_type import_as_favorite mass
                        = (r, mass', GetLibraryItems media_type # evs)"
    by (auto simp: sync_library_def Let_def split: sum.splits prod.splits)
qed

theorem sync_library_capability_check_witness:
  "\<not> library_supported plex RADIO
   \<and> sync_library plex RADIO True fresh_mass
     = (Inl (UnsupportedFeaturedException ''Library sync not supported for this media type''),
        fresh_mass, [])
   \<and> library_supported plex ARTIST
   \<and> sync_library plex ARTIST True fresh_mass
     = (Inr (), fresh_mass\<lparr>cache := (cache fresh_mass)((ARTIST, ''p1'') \<mapsto> [])\<rparr>,
        [GetLibraryItems ARTIST, CacheGet ARTIST ''p1'', CacheSet ARTIST [] ''p1''])"
  using sync_library_capability_check [of plex RADIO True fresh_mass]
    sync_library_capability_check [of plex ARTIST True fresh_mass]
  by (simp add: sync_library_def sync_library_artists_def iterate_library_def
      process_deletions_def action_defs example_defs Let_def)


section \<open>Unavailable tracks\<close>

lemma find_by_prov_mappings_mem:
  "find_by_prov_mappings items ms = Some x \<Longrightarrow> x \<in> set items"
  by (induction ms) (auto split: option.splits simp: find_Some_iff)

lemma find_library_item_mem:
  "x \<in> set items \<Longrightarrow> \<exists>y. find_library_item items (item_id x) = Some y \<and> item_id y = item_id x"
  unfolding find_library_item_def
  by (cases "find (\<lambda>y. item_id y = item_id x) items") (auto simp: find_None_iff find_Some_iff)

text \<open>
  C10: a catalog track that is not available and has no matching library item is
  skipped by the track sync: after the lookup nothing else is called, the library is
  unchanged and the set of seen ids is returned as it was. A track that is not
  available but has a matching library item is not skipped: when no call fails and the
  mapping check does not raise, the id of the library item is recorded as seen.
\<close>

theorem unavailable_track_skip:
  assumes "\<not> available prov_item"
  shows "(find_by_prov_mappings (lib TRACK) (provider_mappings prov_item) = None \<longrightarrow>
            sync_library_tracks_item self import_as_favorite prov_item cur_db_ids lib
            = ((case faults self (GetLibraryItemByProvMappings TRACK (provider_mappings prov_item)) of
                  None \<Rightarrow> Inr cur_db_ids | Some e \<Rightarrow> Inl e),
               lib, [GetLibraryItemByProvMappings TRACK (provider_mappings prov_item)]))
       \<and> (\<forall>library_item.
            find_by_prov_mappings (lib TRACK) (provider_mappings prov_item) = Some library_item
            \<and> faults self = (\<lambda>_. None)
            \<and> (\<forall>e. check_provider_mappings self library_item prov_item True \<noteq> Inl e) \<longrightarrow>
            (\<exists>lib' evs.
               sync_library_tracks_item self import_as_favorite prov_item cur_db_ids lib
               = (Inr (List.insert (item_id library_item) cur_db_ids), lib', evs)))"
proof (intro conjI impI allI)
  assume "find_by_prov_mappings (lib TRACK) (provider_mappings prov_item) = None"
  with assms show "sync_library_tracks_item self import_as_favorite prov_item cur_db_ids lib
            = ((case faults self (GetLibraryItemByProvMappings TRACK (provider_mappings prov_item)) of
                  None \<Rightarrow> Inr cur_db_ids | Some e \<Rightarrow> Inl e),
               lib, [GetLibraryItemByProvMappings TRACK (provider_mappings prov_item)])"
    by (simp add: sync_library_tracks_item_def action_defs store_defs split: option.splits)
next
  fix library_item
  assume h: "find_by_prov_mappings (lib TRACK) (provider_mappings prov_item) = Some library_item
            \<and> faults self = (\<lambda>_. None)
            \<and> (\<forall>e. check_provider_mappings self library_item prov_item True \<noteq> Inl e)"
  then have "library_item \<in> set (lib TRACK)" by (auto dest: find_by_prov_mappings_mem)
  from find_library_item_mem[OF this] obtain y where
    y: "find_library_item (lib TRACK) (item_id library_item) = Some y" "item_id y = item_id library_item"
    by blast
  obtain c pi' where chk: "check_provider_mappings self library_item prov_item True = Inr (c, pi')"
    using h by (cases "check_provider_mappings self library_item prov_item True") auto
  show "\<exists>lib' evs.
               sync_library_tracks_item self import_as_favorite prov_item cur_db_ids lib
               = (Inr (List.insert (item_id library_item) cur_db_ids), lib', evs)"
    using h y chk
    by (simp add: sync_library_tracks_item_def action_defs store_defs branch_defs merge_item_def)
qed


theorem unavailable_track_skip_witness:
  "\<not> available ((prov_item_of ''a'' [mapping_of ''p1'' ''a'' True])\<lparr>available := False\<rparr>)
   \<and> find_by_prov_mappings (no_library TRACK) [mapping_of ''p1'' ''a'' True] = None
   \<and> sync_library_tracks_item plex True
        ((prov_item_of ''a'' [mapping_of ''p1'' ''a'' True])\<lparr>available := False\<rparr>) [] no_library
     = (Inr [], no_library, [GetLibraryItemByProvMappings TRACK [mapping_of ''p1'' ''a'' True]])
   \<and> find_by_prov_mappings
         ((no_library(TRACK := [library_item_of 7 True [mapping_of ''p1'' ''a'' True]])) TRACK)
         [mapping_of ''p1'' ''a'' True]
       = Some (library_item_of 7 True [mapping_of ''p1'' ''a'' True])
   \<and> fst (sync_library_tracks_item plex True
        ((prov_item_of ''a'' [mapping_of ''p1'' ''a'' True])\<lparr>available := False\<rparr>) []
        (no_library(TRACK := [library_item_of 7 True [mapping_of ''p1'' ''a'' True]])))
     = Inr [7]"
  using unavailable_track_skip
    [of "(prov_item_of ''a'' [mapping_of ''p1'' ''a'' True])\<lparr>available := False\<rparr>"
        no_library plex True "[]"]
    unavailable_track_skip
    [of "(prov_item_of ''a'' [mapping_of ''p1'' ''a'' True])\<lparr>available := False\<rparr>"
        "no_library(TRACK := [library_item_of 7 True [mapping_of ''p1'' ''a'' True]])" plex True "[]"]
  by (simp add: sync_library_tracks_item_def action_defs store_defs branch_defs
      find_library_item_def merge_item_def same_mapping_def example_defs)

section \<open>The order of the branches for a matched item\<close>

lemma composable_calls_satisfy: "composable (calls_satisfy P)"
  by (simp add: composable_def calls_satisfy_def)

lemma upholds_call:
  assumes "\<And>lib. R lib lib [ev]" "\<And>lib r lib'. f lib = (r, lib') \<Longrightarrow> R lib lib' [ev]"
  shows "upholds R (call self ev f)"
  using assms by (auto simp: upholds_def call_def split: option.splits prod.splits)

lemma tracks_upholds_calls_satisfy:
  assumes "\<And>c ms. P (GetLibraryItemByProvMappings c ms)" "\<And>c x. P (AddItemToLibrary c x)"
    "\<And>c i x. P (UpdateItemInLibrary c i x)" "\<And>a. P (GetAlbumTracks a)"
    "\<And>a n. P (GetPlaylistTracks a n)"
  shows "tracks_upholds (calls_satisfy P) self"
  unfolding tracks_upholds_def store_defs
  by (intro conjI allI upholds_call) (simp_all add: calls_satisfy_def assms)

lemma child_sync_never_sets_favorite:
  "sync_playlist_tracks self pl lib = (r, lib', evs) \<Longrightarrow> list_all (\<lambda>e. \<not> is_SetFavorite e) evs"
  using upholds_sync_playlist_tracks[OF composable_calls_satisfy,
      of "\<lambda>e. \<not> is_SetFavorite e" self pl]
    tracks_upholds_calls_satisfy[of "\<lambda>e. \<not> is_SetFavorite e" self]
  by (simp add: upholds_def calls_satisfy_def)

lemma some_bool_is_false: "\<exists>b. \<not> b"
  by (rule exI[of _ False]) simp

text \<open>
  C4, as the code has it. For a matched library item that is not a favorite, with
  \<open>import_as_favorite\<close> set: when the checksum of a playlist or the availability of a
  track or podcast differs, \<^verbatim>\<open>update_item_in_library\<close> is called right after the
  lookup and \<^verbatim>\<open>set_favorite\<close> is not called at all in that iteration (the change
  detection stands before the favorite branch). For an audiobook the resume state is
  compared in a statement of its own after the chain: \<^verbatim>\<open>set_favorite\<close> is called and
  then \<^verbatim>\<open>update_item_in_library\<close> as well.
\<close>

theorem change_detection_precedes_favorite:
  assumes "faults self (GetLibraryItemByProvMappings ctrl (provider_mappings prov_item)) = None"
    and "find_by_prov_mappings (lib ctrl) (provider_mappings prov_item) = Some library_item"
    and "\<not> favorite library_item"
  shows "(ctrl = PLAYLIST \<and> cache_checksum library_item \<noteq> cache_checksum prov_item \<longrightarrow>
           (\<exists>r lib' evs. sync_library_playlists_item self True prov_item cur_db_ids lib
              = (r, lib', GetLibraryItemByProvMappings PLAYLIST (provider_mappings prov_item)
                          # UpdateItemInLibrary PLAYLIST (item_id library_item) prov_item # evs)
              \<and> list_all (\<lambda>e. \<not> is_SetFavorite e) evs))
       \<and> (ctrl = TRACK \<and> available library_item \<noteq> available prov_item \<longrightarrow>
           (\<exists>r lib'. sync_library_tracks_item self True prov_item cur_db_ids lib
              = (r, lib', [GetLibraryItemByProvMappings TRACK (provider_mappings prov_item),
                           UpdateItemInLibrary TRACK (item_id library_item) prov_item])))
       \<and> (ctrl = PODCAST \<and> available library_item \<noteq> available prov_item \<longrightarrow>
           (\<exists>r lib' evs. sync_library_podcasts_item self True prov_item cur_db_ids lib
              = (r, lib', GetLibraryItemByProvMappings PODCAST (provider_mappings prov_item)
                          # UpdateItemInLibrary PODCAST (item_id library_item) prov_item # evs)
              \<and> list_all (\<lambda>e. \<not> is_SetFavorite e) evs))
       \<and> (ctrl = AUDIOBOOK
            \<and> faults self (SetFavorite AUDIOBOOK (item_id library_item) True) = None
            \<and> resume_position_ms prov_item \<noteq> None \<and> fully_played prov_item \<noteq> None
            \<and> (resume_position_ms library_item \<noteq> resume_position_ms prov_item
                 \<or> fully_played library_item \<noteq> fully_played prov_item) \<longrightarrow>
           (\<exists>r lib'. sync_library_audiobooks_item self True prov_item cur_db_ids lib
              = (r, lib', [GetLibraryItemByProvMappings AUDIOBOOK (provider_mappings prov_item),
                           SetFavorite AUDIOBOOK (item_id library_item) True,
                           UpdateItemInLibrary AUDIOBOOK (item_id library_item) prov_item])))"
proof (intro conjI impI)
  assume h: "ctrl = PLAYLIST \<and> cache_checksum library_item \<noteq> cache_checksum prov_item"
  show "\<exists>r lib' evs. sync_library_playlists_item self True prov_item cur_db_ids lib
              = (r, lib', GetLibraryItemByProvMappings PLAYLIST (provider_mappings prov_item)
                          # UpdateItemInLibrary PLAYLIST (item_id library_item) prov_item # evs)
              \<and> list_all (\<lambda>e. \<not> is_SetFavorite e) evs"
    using assms h
    by (auto simp: sync_library_playlists_item_def action_defs store_defs branch_defs
        split: option.splits prod.splits sum.splits dest: child_sync_never_sets_favorite)
next
  assume h: "ctrl = TRACK \<and> available library_item \<noteq> available prov_item"
  show "\<exists>r lib'. sync_library_tracks_item self True prov_item cur_db_ids lib
              = (r, lib', [GetLibraryItemByProvMappings TRACK (provider_mappings prov_item),
                           UpdateItemInLibrary TRACK (item_id library_item) prov_item])"
    using assms h
    by (auto simp: sync_library_tracks_item_def action_defs store_defs branch_defs
        split: option.splits prod.splits sum.splits)
next
  assume h: "ctrl = PODCAST \<and> available library_item \<noteq> available prov_item"
  show "\<exists>r lib' evs. sync_library_podcasts_item self True prov_item cur_db_ids lib
              = (r, lib', GetLibraryItemByProvMappings PODCAST (provider_mappings prov_item)
                          # UpdateItemInLibrary PODCAST (item_id library_item) prov_item # evs)
              \<and> list_all (\<lambda>e. \<not> is_SetFavorite e) evs"
    using assms h
    by (auto simp: sync_library_podcasts_item_def action_defs store_defs branch_defs
        split: option.splits prod.splits sum.splits)
next
  assume h: "ctrl = AUDIOBOOK
            \<and> faults self (SetFavorite AUDIOBOOK (item_id library_item) True) = None
            \<and> resume_position_ms prov_item \<noteq> None \<and> fully_played prov_item \<noteq> None
            \<and> (resume_position_ms library_item \<noteq> resume_position_ms prov_item
                 \<or> fully_played library_item \<noteq> fully_played prov_item)"
  show "\<exists>r lib'. sync_library_audiobooks_item self True prov_item cur_db_ids lib
              = (r, lib', [GetLibraryItemByProvMappings AUDIOBOOK (provider_mappings prov_item),
                           SetFavorite AUDIOBOOK (item_id library_item) True,
                           UpdateItemInLibrary AUDIOBOOK (item_id library_item) prov_item])"
    using assms h
    by (auto simp: sync_library_audiobooks_item_def action_defs store_defs branch_defs
        split: option.splits prod.splits sum.splits)
qed


theorem change_detection_precedes_favorite_witness:
  "snd (snd (sync_library_playlists_item plex True
       ((prov_item_of ''a'' [mapping_of ''p1'' ''a'' True])\<lparr>cache_checksum := Some ''v2''\<rparr>) []
       (no_library(PLAYLIST := [library_item_of 1 False [mapping_of ''p1'' ''a'' True]]))))
   = [GetLibraryItemByProvMappings PLAYLIST [mapping_of ''p1'' ''a'' True],
      UpdateItemInLibrary PLAYLIST 1
        ((prov_item_of ''a'' [mapping_of ''p1'' ''a'' True])\<lparr>cache_checksum := Some ''v2''\<rparr>)]
   \<and> snd (snd (sync_library_tracks_item plex True
       ((prov_item_of ''a'' [mapping_of ''p1'' ''a'' True])\<lparr>available := False\<rparr>) []
       (no_library(TRACK := [library_item_of 1 False [mapping_of ''p1'' ''a'' True]]))))
   = [GetLibraryItemByProvMappings TRACK [mapping_of ''p1'' ''a'' True],
      UpdateItemInLibrary TRACK 1
        ((prov_item_of ''a'' [mapping_of ''p1'' ''a'' True])\<lparr>available := False\<rparr>)]
   \<and> snd (snd (sync_library_podcasts_item plex True
       ((prov_item_of ''a'' [mapping_of ''p1'' ''a'' True])\<lparr>available := False\<rparr>) []
       (no_library(PODCAST := [library_item_of 1 False [mapping_of ''p1'' ''a'' True]]))))
   = [GetLibraryItemByProvMappings PODCAST [mapping_of ''p1'' ''a'' True],
      UpdateItemInLibrary PODCAST 1
        ((prov_item_of ''a'' [mapping_of ''p1'' ''a'' True])\<lparr>available := False\<rparr>),
      PodcastEpisodes 1 ''library'']
   \<and> snd (snd (sync_library_audiobooks_item plex True
       ((prov_item_of ''a'' [mapping_of ''p1'' ''a'' True])
          \<lparr>resume_position_ms := Some 5000, fully_played := Some False\<rparr>) []
       (no_library(AUDIOBOOK := [library_item_of 1 False [mapping_of ''p1'' ''a'' True]]))))
   = [GetLibraryItemByProvMappings AUDIOBOOK [mapping_of ''p1'' ''a'' True],
      SetFavorite AUDIOBOOK 1 True,
      UpdateItemInLibrary AUDIOBOOK 1
        ((prov_item_of ''a'' [mapping_of ''p1'' ''a'' True])
           \<lparr>resume_position_ms := Some 5000, fully_played := Some False\<rparr>)]"
  using change_detection_precedes_favorite
      [of plex PLAYLIST
          "(prov_item_of ''a'' [mapping_of ''p1'' ''a'' True])\<lparr>cache_checksum := Some ''v2''\<rparr>"
          "no_library(PLAYLIST := [library_item_of 1 False [mapping_of ''p1'' ''a'' True]])"
          "library_item_of 1 False [mapping_of ''p1'' ''a'' True]" "[]"]
    change_detection_precedes_favorite
      [of plex TRACK
          "(prov_item_of ''a'' [mapping_of ''p1'' ''a'' True])\<lparr>available := False\<rparr>"
          "no_library(TRACK := [library_item_of 1 False [mapping_of ''p1'' ''a'' True]])"
          "library_item_of 1 False [mapping_of ''p1'' ''a'' True]" "[]"]
    change_detection_precedes_favorite
      [of plex PODCAST
          "(prov_item_of ''a'' [mapping_of ''p1'' ''a'' True])\<lparr>available := False\<rparr>"
          "no_library(PODCAST := [library_item_of 1 False [mapping_of ''p1'' ''a'' True]])"
          "library_item_of 1 False [mapping_of ''p1'' ''a'' True]" "[]"]
    change_detection_precedes_favorite
      [of plex AUDIOBOOK
          "(prov_item_of ''a'' [mapping_of ''p1'' ''a'' True])
             \<lparr>resume_position_ms := Some 5000, fully_played := Some False\<rparr>"
          "no_library(AUDIOBOOK := [library_item_of 1 False [mapping_of ''p1'' ''a'' True]])"
          "library_item_of 1 False [mapping_of ''p1'' ''a'' True]" "[]"]
  by (simp add: sync_library_playlists_item_def sync_library_tracks_item_def
      sync_library_podcasts_item_def sync_library_audiobooks_item_def
      action_defs store_defs branch_defs find_library_item_def merge_item_def same_mapping_def
      example_defs some_bool_is_false)


text \<open>
  C4 as stated fails: a playlist that is not a favorite and whose checksum changed is
  updated, and \<^verbatim>\<open>set_favorite\<close> is not called, although \<open>import_as_favorite\<close> is
  set.
\<close>

theorem favorite_before_change_detection_counterexample:
  "\<not> favorite (library_item_of 1 False [mapping_of ''p1'' ''a'' True])
   \<and> cache_checksum (library_item_of 1 False [mapping_of ''p1'' ''a'' True])
       \<noteq> cache_checksum
           ((prov_item_of ''a'' [mapping_of ''p1'' ''a'' True])\<lparr>cache_checksum := Some ''v2''\<rparr>)
   \<and> snd (snd (sync_library_playlists_item plex True
       ((prov_item_of ''a'' [mapping_of ''p1'' ''a'' True])\<lparr>cache_checksum := Some ''v2''\<rparr>) []
       (no_library(PLAYLIST := [library_item_of 1 False [mapping_of ''p1'' ''a'' True]]))))
   = [GetLibraryItemByProvMappings PLAYLIST [mapping_of ''p1'' ''a'' True],
      UpdateItemInLibrary PLAYLIST 1
        ((prov_item_of ''a'' [mapping_of ''p1'' ''a'' True])\<lparr>cache_checksum := Some ''v2''\<rparr>)]"
  by (simp add: sync_library_playlists_item_def
      action_defs store_defs branch_defs find_library_item_def merge_item_def same_mapping_def
      example_defs)

section \<open>The orphan collector, one id at a time\<close>






text \<open>
  The runs of one iteration of the deletions loop: the id was seen in this pass; the
  read of the item raises; the item is gone; the item is still claimed by another
  provider instance; the item is claimed by no other provider instance.
\<close>

lemma process_deletion_seen:
  "db_id \<in> set cur \<Longrightarrow> process_deletion self mt cur db_id lib = (Inr (), lib, [])"
  by (simp add: process_deletion_def ret_def)

lemma process_deletion_get_fails:
  assumes "db_id \<notin> set cur" "faults self (GetLibraryItem mt db_id) = Some e"
  shows "process_deletion self mt cur db_id lib
         = (if is_MediaNotFoundError e then Inr () else Inl e, lib, [GetLibraryItem mt db_id])"
  using assms by (simp add: process_deletion_def action_defs get_library_item_def)

lemma process_deletion_absent:
  assumes "db_id \<notin> set cur" "faults self (GetLibraryItem mt db_id) = None"
    "find_library_item (lib mt) db_id = None"
  shows "process_deletion self mt cur db_id lib = (Inr (), lib, [GetLibraryItem mt db_id])"
  using assms by (simp add: process_deletion_def action_defs get_library_item_def)

lemma process_deletion_claimed:
  assumes "db_id \<notin> set cur" "faults self (GetLibraryItem mt db_id) = None"
    "find_library_item (lib mt) db_id = Some li" "remaining_providers self li \<noteq> {}"
  shows "process_deletion self mt cur db_id lib
         = (case faults self (SetProviderMappings mt db_id (demote self (provider_mappings li))) of
              None \<Rightarrow> (Inr (),
                        with_provider_mappings lib mt db_id (demote self (provider_mappings li)),
                        [GetLibraryItem mt db_id,
                         SetProviderMappings mt db_id (demote self (provider_mappings li))])
            | Some e \<Rightarrow> (Inl e, lib,
                          [GetLibraryItem mt db_id,
                           SetProviderMappings mt db_id (demote self (provider_mappings li))]))"
  using assms
  by (simp add: process_deletion_def action_defs get_library_item_def set_provider_mappings_def
      split: option.splits)

lemma process_deletion_unclaimed:
  assumes "db_id \<notin> set cur" "faults self (GetLibraryItem mt db_id) = None"
    "find_library_item (lib mt) db_id = Some li" "remaining_providers self li = {}"
  shows "process_deletion self mt cur db_id lib
         = (case faults self (RemoveItemFromLibrary mt db_id (mt = ALBUM)) of
              None \<Rightarrow> (Inr (), without_item lib mt db_id,
                        [GetLibraryItem mt db_id, RemoveItemFromLibrary mt db_id (mt = ALBUM)])
            | Some e \<Rightarrow>
                if is_MusicAssistantError e
                then (case (if favorite li then set_favorite self mt db_id False else ret ()) lib of
                        (Inl e', lib1, evs1) \<Rightarrow>
                          (Inl e', lib1,
                           [GetLibraryItem mt db_id, RemoveItemFromLibrary mt db_id (mt = ALBUM)]
                           @ evs1)
                      | (Inr u, lib1, evs1) \<Rightarrow>
                          (case set_provider_mappings self mt db_id
                                  (demote self (provider_mappings li)) lib1 of
                             (r, lib2, evs2) \<Rightarrow>
                               (r, lib2,
                                [GetLibraryItem mt db_id,
                                 RemoveItemFromLibrary mt db_id (mt = ALBUM)] @ evs1 @ evs2)))
                else (Inl e, lib,
                      [GetLibraryItem mt db_id, RemoveItemFromLibrary mt db_id (mt = ALBUM)]))"
  using assms
  by (simp add: process_deletion_def and_then_def try_except_def ret_def call_def
      get_library_item_def remove_item_from_library_def
      split: option.splits prod.splits sum.splits)




section \<open>The orphan collector changes the mappings of its own provider instance only\<close>

lemma demoted_from_refl: "demoted_from self ms ms"
  by (simp add: demoted_from_def list_all2_same)

lemma demoted_from_demote: "demoted_from self (demote self ms) ms"
  by (simp add: demoted_from_def demote_def list_all2_map1 list_all2_same)

lemma demoted_from_trans:
  assumes "demoted_from self a b" "demoted_from self b c"
  shows "demoted_from self a c"
  unfolding demoted_from_def
  by (rule list_all2_trans[OF _ assms(1)[unfolded demoted_from_def] assms(2)[unfolded demoted_from_def]])
     auto

lemma composable_mappings_frame: "composable (mappings_frame self)"
  unfolding composable_def
proof (intro conjI allI impI)
  fix lib show "mappings_frame self lib lib []"
    by (auto simp: mappings_frame_def demoted_from_refl)
next
  fix lib lib1 lib2 evs1 evs2
  assume a: "mappings_frame self lib lib1 evs1" and b: "mappings_frame self lib1 lib2 evs2"
  have step: "\<exists>x \<in> set (lib c). item_id x = i \<and> demoted_from self ms (provider_mappings x)"
    if "x1 \<in> set (lib1 c)" "item_id x1 = i" "demoted_from self ms (provider_mappings x1)"
    for c x1 i ms
  proof -
    from a that(1) obtain x where "x \<in> set (lib c)" "item_id x1 = item_id x"
      "demoted_from self (provider_mappings x1) (provider_mappings x)"
      unfolding mappings_frame_def by blast
    with that show ?thesis by (metis demoted_from_trans)
  qed
  show "mappings_frame self lib lib2 (evs1 @ evs2)"
    unfolding mappings_frame_def
  proof (intro conjI allI ballI impI)
    fix c x' assume "x' \<in> set (lib2 c)"
    with b obtain x1 where "x1 \<in> set (lib1 c)" "item_id x' = item_id x1"
      "demoted_from self (provider_mappings x') (provider_mappings x1)"
      unfolding mappings_frame_def by blast
    then have "\<exists>x \<in> set (lib c). item_id x = item_id x'
            \<and> demoted_from self (provider_mappings x') (provider_mappings x)"
      by (intro step[of x1]) simp_all
    then obtain x where "x \<in> set (lib c)" "item_id x = item_id x'"
      "demoted_from self (provider_mappings x') (provider_mappings x)" by blast
    then show "\<exists>x \<in> set (lib c). item_id x' = item_id x
            \<and> demoted_from self (provider_mappings x') (provider_mappings x)"
      by (intro bexI[of _ x]) simp_all
  next
    fix c i ms' assume "SetProviderMappings c i ms' \<in> set (evs1 @ evs2)"
    then consider "SetProviderMappings c i ms' \<in> set evs1" | "SetProviderMappings c i ms' \<in> set evs2"
      by auto
    then show "\<exists>x \<in> set (lib c). item_id x = i \<and> demoted_from self ms' (provider_mappings x)"
    proof cases
      case 1 with a show ?thesis unfolding mappings_frame_def by blast
    next
      case 2
      with b obtain x1 where "x1 \<in> set (lib1 c)" "item_id x1 = i"
        "demoted_from self ms' (provider_mappings x1)"
        unfolding mappings_frame_def by blast
      then show ?thesis by (rule step)
    qed
  qed
qed

lemma find_library_item_Some:
  "find_library_item items db = Some x \<Longrightarrow> x \<in> set items \<and> item_id x = db"
  by (auto simp: find_library_item_def find_Some_iff)

lemma frame_get: "upholds (mappings_frame self) (get_library_item self c i)"
  by (auto simp: upholds_def get_library_item_def call_def mappings_frame_def demoted_from_refl
      split: option.splits)

lemma frame_set_favorite: "upholds (mappings_frame self) (set_favorite self c i b)"
  by (auto simp: upholds_def set_favorite_def call_def mappings_frame_def with_favorite_def
      demoted_from_refl split: option.splits if_splits)

lemma frame_remove: "upholds (mappings_frame self) (remove_item_from_library self c i b)"
  by (auto simp: upholds_def remove_item_from_library_def call_def mappings_frame_def
      without_item_def demoted_from_refl split: option.splits if_splits)

lemma frame_set_provider_mappings:
  assumes "x \<in> set (lib c)" "item_id x = i"
    "set_provider_mappings self c i (demote self (provider_mappings x)) lib = (r, lib', evs)"
  shows "mappings_frame self lib lib' evs"
proof (cases "faults self (SetProviderMappings c i (demote self (provider_mappings x)))")
  case (Some e)
  with assms have "lib' = lib" "evs = [SetProviderMappings c i (demote self (provider_mappings x))]"
    by (simp_all add: set_provider_mappings_def call_def)
  moreover have "\<exists>y \<in> set (lib c). item_id y = i
      \<and> demoted_from self (demote self (provider_mappings x)) (provider_mappings y)"
    using assms(1,2) demoted_from_demote by blast
  ultimately show ?thesis
    by (auto simp: mappings_frame_def intro: demoted_from_refl)
next
  case None
  with assms(3) have l: "lib' = with_provider_mappings lib c i (demote self (provider_mappings x))"
    and e: "evs = [SetProviderMappings c i (demote self (provider_mappings x))]"
    by (simp_all add: set_provider_mappings_def call_def)
  show ?thesis
    unfolding mappings_frame_def l e
  proof (intro conjI allI ballI impI)
    fix c' x'
    assume "x' \<in> set (with_provider_mappings lib c i (demote self (provider_mappings x)) c')"
    then consider "x' \<in> set (lib c')"
      | "c' = c" "item_id x' = i" "provider_mappings x' = demote self (provider_mappings x)"
      by (auto simp: with_provider_mappings_def split: if_splits)
    then show "\<exists>y \<in> set (lib c'). item_id x' = item_id y
                 \<and> demoted_from self (provider_mappings x') (provider_mappings y)"
    proof cases
      case 1 then show ?thesis by (auto intro: demoted_from_refl)
    next
      case 2
      with assms(1,2) demoted_from_demote[of self "provider_mappings x"] show ?thesis
        by (intro bexI[of _ x]) simp_all
    qed
  next
    fix c' i' ms'
    assume "SetProviderMappings c' i' ms' \<in> set [SetProviderMappings c i (demote self (provider_mappings x))]"
    with assms(1,2) demoted_from_demote[of self "provider_mappings x"]
    show "\<exists>y \<in> set (lib c'). item_id y = i' \<and> demoted_from self ms' (provider_mappings y)"
      by (intro bexI[of _ x]) simp_all
  qed
qed


lemma frame_same:
  "\<forall>c i ms. SetProviderMappings c i ms \<notin> set evs \<Longrightarrow> mappings_frame self lib lib evs"
  by (auto simp: mappings_frame_def intro: demoted_from_refl)

lemma frame_trans:
  "mappings_frame self a b e1 \<Longrightarrow> mappings_frame self b c e2 \<Longrightarrow> mappings_frame self a c (e1 @ e2)"
  using composable_mappings_frame[of self] unfolding composable_def by blast

lemma frame_process_deletion:
  assumes run: "process_deletion self mt cur db lib = (r, lib', evs)"
  shows "mappings_frame self lib lib' evs"
proof (cases "db \<in> set cur")
  case True
  with run show ?thesis by (auto simp: process_deletion_seen intro!: frame_same)
next
  case unseen: False
  show ?thesis
  proof (cases "faults self (GetLibraryItem mt db)")
    case (Some e)
    with run unseen show ?thesis by (auto simp: process_deletion_get_fails intro!: frame_same)
  next
    case nofault: None
    show ?thesis
    proof (cases "find_library_item (lib mt) db")
      case None
      with run unseen nofault show ?thesis by (auto simp: process_deletion_absent intro!: frame_same)
    next
      case (Some li)
      then have li: "li \<in> set (lib mt)" "item_id li = db"
        by (simp_all add: find_library_item_Some)
      let ?ms = "demote self (provider_mappings li)"
      have get: "mappings_frame self lib lib [GetLibraryItem mt db]"
        by (simp add: frame_same)
      show ?thesis
      proof (cases "remaining_providers self li = {}")
        case False
        obtain r2 lib2 evs2 where w: "set_provider_mappings self mt db ?ms lib = (r2, lib2, evs2)"
          by (cases "set_provider_mappings self mt db ?ms lib") auto
        from frame_set_provider_mappings[where lib=lib and c=mt and x=li, OF li w]
        have f2: "mappings_frame self lib lib2 evs2" .
        from run unseen nofault Some False w
        have "lib' = lib2" "evs = [GetLibraryItem mt db] @ evs2"
          by (auto simp: process_deletion_claimed set_provider_mappings_def call_def
              split: option.splits)
        with frame_trans[OF get f2] show ?thesis by simp
      next
        case True
        note closed = run[unfolded process_deletion_unclaimed[where lib=lib and li=li, OF unseen nofault Some True]]
        show ?thesis
        proof (cases "faults self (RemoveItemFromLibrary mt db (mt = ALBUM))")
          case None
          with closed have "lib' = without_item lib mt db"
            "evs = [GetLibraryItem mt db, RemoveItemFromLibrary mt db (mt = ALBUM)]"
            by simp_all
          then show ?thesis
            by (auto simp: mappings_frame_def without_item_def intro: demoted_from_refl)
        next
          case rm: (Some e)
          show ?thesis
          proof (cases "is_MusicAssistantError e")
            case False
            with closed rm show ?thesis by (auto intro!: frame_same)
          next
            case caught: True
            let ?unfav = "if favorite li then set_favorite self mt db False else ret ()"
            obtain r1 lib1 evs1 where u: "?unfav lib = (r1, lib1, evs1)"
              by (cases "?unfav lib") auto
            have f1: "mappings_frame self lib lib1 evs1"
              using u frame_set_favorite[of self mt db False]
              by (auto simp: upholds_def ret_def frame_same split: if_splits)
            have pre: "mappings_frame self lib lib1
                ([GetLibraryItem mt db, RemoveItemFromLibrary mt db (mt = ALBUM)] @ evs1)"
              by (rule frame_trans[OF _ f1]) (simp add: frame_same)
            show ?thesis
            proof (cases r1)
              case (Inl e')
              with closed rm caught u pre show ?thesis by auto
            next
              case (Inr unit)
              obtain r2 lib2 evs2 where
                w: "set_provider_mappings self mt db ?ms lib1 = (r2, lib2, evs2)"
                by (cases "set_provider_mappings self mt db ?ms lib1") auto
              obtain x where x: "x \<in> set (lib1 mt)" "item_id x = db"
                "provider_mappings x = provider_mappings li"
              proof (cases "favorite li \<and> faults self (SetFavorite mt db False) = None")
                case True
                with u have "lib1 = with_favorite lib mt db False"
                  by (simp add: set_favorite_def call_def)
                with li have "li\<lparr>favorite := False\<rparr> \<in> set (lib1 mt)"
                  by (force simp: with_favorite_def)
                with li that[of "li\<lparr>favorite := False\<rparr>"] show ?thesis by simp
              next
                case False
                with u have "lib1 = lib"
                  by (auto simp: set_favorite_def call_def ret_def split: if_splits option.splits)
                with li that[of li] show ?thesis by simp
              qed
              from frame_set_provider_mappings[where lib=lib1 and c=mt and x=x, OF x(1,2)] w x(3)
              have f2: "mappings_frame self lib1 lib2 evs2" by simp
              from closed rm caught u Inr w have "lib' = lib2"
                "evs = ([GetLibraryItem mt db, RemoveItemFromLibrary mt db (mt = ALBUM)] @ evs1) @ evs2"
                by simp_all
              with frame_trans[OF pre f2] show ?thesis by simp
            qed
          qed
        qed
      qed
    qed
  qed
qed

lemma remaining_providers_empty_iff:
  "remaining_providers self li = {} \<longleftrightarrow>
     \<not> list_ex (\<lambda>x. provider_instance x \<noteq> instance_id self \<and> in_library x)
          (provider_mappings li)"
  by (auto simp: remaining_providers_def list_ex_iff filter_empty_conv)

text \<open>
  C8: whatever the deletions loop of a pass for provider instance P does and however it
  ends, every item left in the library has the mappings it had before, except that
  mappings of P may have been flipped to \<open>in_library = False\<close>; and every list of
  mappings the loop writes with \<^verbatim>\<open>set_provider_mappings\<close> is such a demotion of the
  mappings of the item it is written to. A mapping of another provider instance is
  unchanged in all its fields.
\<close>

theorem deletions_change_only_own_mappings:
  assumes "process_deletions self media_type prev_library_items cur_db_ids lib = (r, lib', evs)"
  shows "(\<forall>c. \<forall>x' \<in> set (lib' c). \<exists>x \<in> set (lib c).
            item_id x' = item_id x
            \<and> demoted_from self (provider_mappings x') (provider_mappings x))
       \<and> (\<forall>c i ms'. SetProviderMappings c i ms' \<in> set evs \<longrightarrow>
             (\<exists>x \<in> set (lib c). item_id x = i \<and> demoted_from self ms' (provider_mappings x)))"
proof -
  have "upholds (mappings_frame self) (process_deletion self media_type cur_db_ids db)" for db
    unfolding upholds_def using frame_process_deletion by blast
  then have "upholds (mappings_frame self)
               (process_deletions self media_type prev_library_items cur_db_ids)"
    unfolding process_deletions_def
    by (intro upholds_intros composable_mappings_frame) simp_all
  with assms have "mappings_frame self lib lib' evs"
    unfolding upholds_def by blast
  then show ?thesis by (simp add: mappings_frame_def)
qed


theorem deletions_change_only_own_mappings_witness:
  "process_deletions plex TRACK (Some [1]) []
     (no_library(TRACK := [library_item_of 1 False
                             [mapping_of ''p1'' ''a'' True, mapping_of ''p2'' ''b'' True]]))
   = (Inr (),
      no_library(TRACK := [library_item_of 1 False
                             [mapping_of ''p1'' ''a'' False, mapping_of ''p2'' ''b'' True]]),
      [GetLibraryItem TRACK 1,
       SetProviderMappings TRACK 1 [mapping_of ''p1'' ''a'' False, mapping_of ''p2'' ''b'' True]])
   \<and> demoted_from plex [mapping_of ''p1'' ''a'' False, mapping_of ''p2'' ''b'' True]
        [mapping_of ''p1'' ''a'' True, mapping_of ''p2'' ''b'' True]"
proof -
  let ?lib = "no_library(TRACK := [library_item_of 1 False
                             [mapping_of ''p1'' ''a'' True, mapping_of ''p2'' ''b'' True]])"
  let ?ms' = "[mapping_of ''p1'' ''a'' False, mapping_of ''p2'' ''b'' True]"
  have run: "process_deletions plex TRACK (Some [1]) [] ?lib
    = (Inr (),
       no_library(TRACK := [library_item_of 1 False ?ms']),
       [GetLibraryItem TRACK 1, SetProviderMappings TRACK 1 ?ms'])"
    by (simp add: process_deletions_def process_deletion_def remaining_providers_empty_iff demote_def
        action_defs store_defs find_library_item_def example_defs)
  from deletions_change_only_own_mappings[OF run]
  have "\<exists>x \<in> set (?lib TRACK). item_id x = 1 \<and> demoted_from plex ?ms' (provider_mappings x)"
    by simp
  then have "demoted_from plex ?ms' [mapping_of ''p1'' ''a'' True, mapping_of ''p2'' ''b'' True]"
    by (simp add: library_item_of_def)
  with run show ?thesis by simp
qed

section \<open>An item another provider instance still claims\<close>













section \<open>Failures of single items\<close>





















































section \<open>Repeating a pass\<close>









end
